theory Spec2Isabelle
  imports Complex_Main
begin

section \<open>Python values, exceptions and the warning log\<close>

text \<open>
  The translator is the class \<open>EMDBXMLTranslator\<close> of \<open>emdb_xml_translate.py\<close>
  (Python 2). Strings are byte strings; \<open>None\<close> is the \<open>None\<close> of an option type.
  An exception is a value: a function that may raise returns a \<open>result\<close>. The type
  \<open>exn\<close> stands for the instances of Python's class \<open>Exception\<close>, which is what the
  handlers \<open>except Exception\<close> of the source catch.
\<close>

datatype exn =
    Exception string
  | KeyError string
  | ValueError string
  | AttributeError string
  | UnboundLocalError string
  | TypeError string

datatype 'a result = Return 'a | Raise exn

text \<open>
  The messages handed to \<open>logging.warning\<close>. Each constructor is one format
  string of the source; its arguments are the interpolated values (the rendering of a
  callable and of the copied value in the messages of the transfer primitives is not
  represented).
\<close>

datatype message =
    Emdb_code_no_match string string
      \<comment> \<open>'EMDB accession code: %s does not match any standards. Using dummy code: %s'\<close>
  | Check_set_transform_failed exn
      \<comment> \<open>'function check_set: Transform function did not work: %s(%s).  Error: %s'\<close>
  | Check_set_setter_failed exn
      \<comment> \<open>'function check_set: Setter function did not work: %s(%s). Error: %s'\<close>
  | Units_transform_failed exn
      \<comment> \<open>'function set_value_and_units: Transform function did not work: %s(%s). Error: %s'\<close>
  | Units_setter_failed exn
      \<comment> \<open>'function set_value_and_units: Setter function did not work: %s(%s). Error: %s'\<close>
  | Traceback exn
      \<comment> \<open>\<open>traceback.format_exc()\<close> of the exception being handled\<close>
  | Chain_ids_without_pdb_id
      \<comment> \<open>'Chain IDs specified but no PDB ID! Will try and parse PDB ID from first chain ID!'\<close>

type_synonym logging = "message list"

text \<open>The fields \<open>__init__\<close> gives a translator; \<open>__init__\<close> sets them to \<open>1, False, False, False\<close>.\<close>

record translator =
  warning_level :: int
  validate_xml_out :: bool
  relaxed :: bool
  roundtrip :: bool

definition init :: translator where
  "init = \<lparr>warning_level = 1, validate_xml_out = False, relaxed = False, roundtrip = False\<rparr>"

definition set_warning_level :: "int \<Rightarrow> translator \<Rightarrow> translator" where
  "set_warning_level level self =
     (if level \<le> 0 then self\<lparr>warning_level := 0\<rparr>
      else if level \<ge> 3 then self\<lparr>warning_level := 3\<rparr>
      else self\<lparr>warning_level := level\<rparr>)"

text \<open>\<open>warn\<close>: the message reaches the log only if its level is at most the translator's.\<close>

definition warn :: "translator \<Rightarrow> int \<Rightarrow> message \<Rightarrow> logging \<Rightarrow> logging" where
  "warn self level msg lg = (if level \<le> warning_level self then lg @ [msg] else lg)"

section \<open>Characters and the accession-code pattern\<close>

definition digits :: string where
  "digits = ''0123456789''"

definition upper_letters :: string where
  "upper_letters = ''ABCDEFGHIJKLMNOPQRSTUVWXYZ''"

definition lower_letters :: string where
  "lower_letters = ''abcdefghijklmnopqrstuvwxyz''"

definition is_digit :: "char \<Rightarrow> bool" where
  "is_digit c = (c \<in> set digits)"

definition is_alnum :: "char \<Rightarrow> bool" where
  "is_alnum c = (c \<in> set digits \<or> c \<in> set upper_letters \<or> c \<in> set lower_letters)"

text \<open>\<open>str.lower\<close> and \<open>str.upper\<close> of a byte string change the ASCII letters only.\<close>

definition lower_char :: "char \<Rightarrow> char" where
  "lower_char c = (case map_of (zip upper_letters lower_letters) c of Some d \<Rightarrow> d | None \<Rightarrow> c)"

definition upper_char :: "char \<Rightarrow> char" where
  "upper_char c = (case map_of (zip lower_letters upper_letters) c of Some d \<Rightarrow> d | None \<Rightarrow> c)"

definition lower :: "string \<Rightarrow> string" where
  "lower s = map lower_char s"

definition upper :: "string \<Rightarrow> string" where
  "upper s = map upper_char s"






section \<open>The value-transfer primitives\<close>

text \<open>
  The callables handed to the primitives. A getter is a bound method that reads the object
  graph \<open>'s\<close>; a transform is a function of the value; a setter is a bound method that
  updates the graph. A callable that raises returns \<open>Raise\<close>; a setter also returns the
  graph as it left it. Python's \<open>None\<close> is the \<open>None\<close> of the option type, so a getter
  of an absent field returns \<open>Return None\<close>, and a transform may return \<open>None\<close> too.
\<close>

type_synonym ('s, 'a) getter = "'s \<Rightarrow> 'a option result"
type_synonym 'a transform = "'a \<Rightarrow> 'a option result"
type_synonym ('s, 'a) setter = "'a option \<Rightarrow> 's \<Rightarrow> unit result \<times> 's"

text \<open>\<open>check_set(get_value, set_value, transform=None)\<close>.\<close>

definition check_set ::
  "translator \<Rightarrow> ('s, 'a) getter \<Rightarrow> ('s, 'a) setter \<Rightarrow> 'a transform option
     \<Rightarrow> 's \<times> logging \<Rightarrow> unit result \<times> 's \<times> logging" where
  "check_set self get_value set_value transform = (\<lambda>(s, lg).
     case get_value s of
       Raise err \<Rightarrow> (Raise err, s, lg)
     | Return None \<Rightarrow> (Return (), s, lg)
     | Return (Some original_value) \<Rightarrow>
         (case (case transform of
                  None \<Rightarrow> Return (Some original_value)
                | Some t \<Rightarrow> t original_value) of
            Raise err \<Rightarrow>
              (Return (), s,
               warn self 3 (Traceback err) (warn self 3 (Check_set_transform_failed err) lg))
          | Return v \<Rightarrow>
              (case set_value v s of
                 (Raise err, s') \<Rightarrow>
                   (Return (), s',
                    warn self 3 (Traceback err) (warn self 3 (Check_set_setter_failed err) lg))
               | (Return u, s') \<Rightarrow> (Return (), s', lg))))"

text \<open>
  \<open>set_value_and_units(getter, setter, constructor, units=None, transform=None)\<close>. The
  source value carries a value and a unit; \<open>constructor\<close> builds the target's unit-tagged
  object. When the transform raises, the handler logs and does not return, so \<open>z_value\<close>
  is unbound at \<open>setter(z_value)\<close>: the \<open>UnboundLocalError\<close> is caught by the second
  handler, whose message reads \<open>z_value\<close> again and raises outside any handler.
\<close>

record 'v value_and_units =
  valueOf :: 'v
  units :: "string option"

definition set_value_and_units ::
  "translator \<Rightarrow> ('s, 'v value_and_units) getter \<Rightarrow> ('s, 'y) setter
     \<Rightarrow> ('v \<Rightarrow> string option \<Rightarrow> 'y) \<Rightarrow> string option \<Rightarrow> 'y transform option
     \<Rightarrow> 's \<times> logging \<Rightarrow> unit result \<times> 's \<times> logging" where
  "set_value_and_units self getter setter constructor units_arg transform = (\<lambda>(s, lg).
     case getter s of
       Raise err \<Rightarrow> (Raise err, s, lg)
     | Return None \<Rightarrow> (Return (), s, lg)
     | Return (Some x_value) \<Rightarrow>
         (let units_value = (case units_arg of None \<Rightarrow> units x_value | Some u \<Rightarrow> Some u);
              y_value = constructor (valueOf x_value) units_value
          in case (case transform of
                     None \<Rightarrow> Return (Some y_value)
                   | Some t \<Rightarrow> t y_value) of
               Raise err \<Rightarrow>
                 (Raise (UnboundLocalError ''z_value''), s,
                  warn self 3 (Traceback err) (warn self 3 (Units_transform_failed err) lg))
             | Return z_value \<Rightarrow>
                 (case setter z_value s of
                    (Raise err, s') \<Rightarrow>
                      (Return (), s',
                       warn self 3 (Traceback err) (warn self 3 (Units_setter_failed err) lg))
                  | (Return u, s') \<Rightarrow> (Return (), s', lg))))"

section \<open>Statement sequences\<close>

text \<open>
  The translators are long sequences of statements over the object graphs and the log. A
  statement that raises ends the sequence: the statements after it do not run and the
  exception is the outcome of the sequence, as for a Python function body with no handler
  around the statement.
\<close>

type_synonym 's stmt = "'s \<Rightarrow> unit result \<times> 's"

fun block :: "'s stmt list \<Rightarrow> 's stmt" where
  "block [] s = (Return (), s)"
| "block (c # cs) s =
     (case c s of
        (Raise err, s') \<Rightarrow> (Raise err, s')
      | (Return u, s') \<Rightarrow> block cs s')"

section \<open>Reverse translation: the site codes\<close>

text \<open>\<open>Constants.PROC_SITE_30_TO_19\<close>.\<close>

definition PROC_SITE_30_TO_19 :: "(string \<times> string) list" where
  "PROC_SITE_30_TO_19 = [(''pdbe'', ''PDBe''), (''rcsb'', ''RCSB''), (''pdbj'', ''PDBj'')]"

text \<open>\<open>d[k]\<close> on a dictionary raises \<open>KeyError\<close> for a missing key.\<close>

definition getitem :: "(string \<times> 'v) list \<Rightarrow> string \<Rightarrow> 'v result" where
  "getitem d k = (case map_of d k of None \<Rightarrow> Raise (KeyError k) | Some v \<Rightarrow> Return v)"

text \<open>\<open>x.lower()\<close> where \<open>x\<close> may be \<open>None\<close>, which has no such attribute.\<close>

definition lower_method :: "string option \<Rightarrow> string result" where
  "lower_method x = (case x of None \<Rightarrow> Raise (AttributeError ''lower'') | Some s \<Rightarrow> Return (lower s))"

text \<open>The sites of the v3.0 admin element, and the two site fields of the v1.9 deposition.\<close>

record sites_type =
  deposition :: "string option"
  last_processing :: "string option"

record depType =
  depositionSite :: "string option"
  processingSite :: "string option"

text \<open>
  The statements of \<open>translate_3_0_to_1_9\<close> that copy the sites (elements 3 and 4 of
  \<open>depType\<close>); they stand in the body of the function, inside no \<open>try\<close>.
\<close>

definition translate_3_0_to_1_9_sites :: "sites_type \<Rightarrow> depType stmt" where
  "translate_3_0_to_1_9_sites sites_in dep =
     (case lower_method (deposition sites_in) of
        Raise err \<Rightarrow> (Raise err, dep)
      | Return k \<Rightarrow>
          (case getitem PROC_SITE_30_TO_19 k of
             Raise err \<Rightarrow> (Raise err, dep)
           | Return site \<Rightarrow>
               (let dep1 = dep\<lparr>depositionSite := Some site\<rparr>;
                    proc_site_in = last_processing sites_in
                in case proc_site_in of
                     None \<Rightarrow> (Return (), dep1)
                   | Some p \<Rightarrow>
                       (case getitem PROC_SITE_30_TO_19 (lower p) of
                          Raise err \<Rightarrow> (Raise err, dep1)
                        | Return site' \<Rightarrow> (Return (), dep1\<lparr>processingSite := Some site'\<rparr>)))))"

section \<open>Forward translation: fitted models and their chains\<close>

text \<open>
  \<open>re.match(PDB_CHAIN_PAT, s)\<close> for
  \<open>PDB_CHAIN_PAT = (\d[\dA-Za-z]{3})([-_:; ]?)([A-Za-z0-9]+)\<close>, anchored at the start of
  \<open>s\<close> only; the result is \<open>mtch.groups()\<close>. The separator is optional and the chain
  group is greedy. When a separator is taken and no letter or digit follows it, the retry
  without the separator needs a letter or digit where the separator is, and fails.
\<close>

definition separators :: string where
  "separators = ''-_:; ''"

definition PDB_CHAIN_PAT_match :: "string \<Rightarrow> (string \<times> string \<times> string) option" where
  "PDB_CHAIN_PAT_match s =
     (case s of
        a # b # c # d # rest \<Rightarrow>
          (if is_digit a \<and> is_alnum b \<and> is_alnum c \<and> is_alnum d then
             (case rest of
                [] \<Rightarrow> None
              | x # xs \<Rightarrow>
                  (if x \<in> set separators then
                     (if takeWhile is_alnum xs \<noteq> []
                      then Some ([a, b, c, d], [x], takeWhile is_alnum xs) else None)
                   else
                     (if takeWhile is_alnum rest \<noteq> []
                      then Some ([a, b, c, d], [], takeWhile is_alnum rest) else None)))
           else None)
      | _ \<Rightarrow> None)"

text \<open>\<open>ch_in.replace(',', '')\<close>.\<close>

definition remove_commas :: "string \<Rightarrow> string" where
  "remove_commas s = filter (\<lambda>c. c \<noteq> CHR '','') s"

text \<open>
  The chain and the initial model of the v3.0 object model, with the fields these
  statements set. The generated class of the chain is not part of the sources; its
  \<open>hasContent_\<close> is the parameter \<open>hasContent\<close> below.
\<close>

record chainType =
  chain_id :: "string option"
  id_attr :: "string option"

record initial_modelType =
  access_code :: "string option"
  chain :: "chainType list"

definition new_chainType :: chainType where
  "new_chainType = \<lparr>chain_id = None, id_attr = None\<rparr>"

definition new_initial_modelType :: initial_modelType where
  "new_initial_modelType = \<lparr>access_code = None, chain = []\<rparr>"

text \<open>
  The local name \<open>const\<close> of \<open>translate_1_9_to_3_0\<close>. It is bound to the class
  \<open>Constants\<close> at the start; the loop \<open>for const in chains_in[1:]\<close> of the fitted
  models uses the same name as its variable, so after a pass of that loop \<open>const\<close> is a
  chain string, and reading an attribute of the class from it raises \<open>AttributeError\<close>.
\<close>

datatype const_binding = Constants | Chain_string string

definition const_PDB_CHAIN_PAT ::
  "const_binding \<Rightarrow> (string \<Rightarrow> (string \<times> string \<times> string) option) result" where
  "const_PDB_CHAIN_PAT const =
     (case const of
        Constants \<Rightarrow> Return PDB_CHAIN_PAT_match
      | Chain_string s \<Rightarrow> Raise (AttributeError ''PDB_CHAIN_PAT''))"

text \<open>
  The body of \<open>for ch_in in chains_in\<close> up to \<open>hasContent_\<close>: the chain object it
  builds, and whether this chain string matched the pattern (the source then sets
  \<open>PDB_entry_id_given\<close>). No statement of the body calls \<open>warn\<close>.
\<close>

definition map_chain :: "const_binding \<Rightarrow> string \<Rightarrow> string \<Rightarrow> (chainType \<times> bool) result" where
  "map_chain const p_in ch_in =
     (let chain = new_chainType in
      case const_PDB_CHAIN_PAT const of
        Raise err \<Rightarrow> Raise err
      | Return pat \<Rightarrow>
          (case pat ch_in of
             Some match_groups \<Rightarrow>
               (let pdb_code = fst match_groups;
                    ch = snd (snd match_groups)
                in Return (if ch \<noteq> []
                           then (if pdb_code = p_in then chain\<lparr>chain_id := Some ch\<rparr> else chain)
                           else chain,
                           True))
           | None \<Rightarrow> Return (chain\<lparr>chain_id := Some (remove_commas ch_in)\<rparr>, False)))"

text \<open>The loop over \<open>chains_in\<close> for one PDB code, on the model and the flag.\<close>

fun map_chains ::
  "(chainType \<Rightarrow> bool) \<Rightarrow> const_binding \<Rightarrow> string \<Rightarrow> string list
     \<Rightarrow> initial_modelType \<times> bool \<Rightarrow> (initial_modelType \<times> bool) result" where
  "map_chains hasContent const p_in [] acc = Return acc"
| "map_chains hasContent const p_in (ch_in # chains_in) (pdb_model, PDB_entry_id_given) =
     (case map_chain const p_in ch_in of
        Raise err \<Rightarrow> Raise err
      | Return (chain', matched) \<Rightarrow>
          map_chains hasContent const p_in chains_in
            (if hasContent chain' then pdb_model\<lparr>chain := chain pdb_model @ [chain']\<rparr>
             else pdb_model,
             PDB_entry_id_given \<or> matched))"

text \<open>The loop over \<open>pdb_in\<close>, on the list of initial models and the flag.\<close>

fun map_pdb_entries ::
  "(chainType \<Rightarrow> bool) \<Rightarrow> const_binding \<Rightarrow> string list \<Rightarrow> string list
     \<Rightarrow> initial_modelType list \<times> bool \<Rightarrow> (initial_modelType list \<times> bool) result" where
  "map_pdb_entries hasContent const [] chains_in acc = Return acc"
| "map_pdb_entries hasContent const (p_in # pdb_in) chains_in (models, PDB_entry_id_given) =
     (case map_chains hasContent const p_in chains_in
             (new_initial_modelType\<lparr>access_code := Some p_in\<rparr>, PDB_entry_id_given) of
        Raise err \<Rightarrow> Raise err
      | Return (pdb_model, given) \<Rightarrow>
          map_pdb_entries hasContent const pdb_in chains_in (models @ [pdb_model], given))"

text \<open>
  The statements of \<open>translate_1_9_to_3_0\<close> for a \<open>pdbEntryIdList\<close> that is present:
  the PDB codes with their chains, or, with chains but no PDB code, the model guessed
  from the first chain string, which is the one path that warns. The result is the
  initial models and the flag, or the exception; with it come the binding of \<open>const\<close>
  after the statements and the log. In the path without a PDB code, a second chain string
  makes the loop \<open>for const in chains_in[1:]\<close> run, which leaves \<open>const\<close> bound to
  the last chain string.
\<close>

definition translate_pdbEntryIdList ::
  "translator \<Rightarrow> (chainType \<Rightarrow> bool) \<Rightarrow> const_binding \<Rightarrow> string list \<Rightarrow> string list \<Rightarrow> logging
     \<Rightarrow> (initial_modelType list \<times> bool) result \<times> const_binding \<times> logging" where
  "translate_pdbEntryIdList self hasContent const pdb_in chains_in lg =
     (if length pdb_in > 0 then
        (map_pdb_entries hasContent const pdb_in chains_in ([], False), const, lg)
      else if length chains_in > 0 then
        (let lg' = warn self 1 Chain_ids_without_pdb_id lg;
             chain_in = hd chains_in
         in case const_PDB_CHAIN_PAT const of
              Raise err \<Rightarrow> (Raise err, const, lg')
            | Return pat \<Rightarrow>
                (let (pdb_code, chain_in') =
                       (case pat chain_in of
                          Some match_groups \<Rightarrow> (fst match_groups, snd (snd match_groups))
                        | None \<Rightarrow> (chain_in, chain_in));
                     pdb_model = new_initial_modelType\<lparr>access_code := Some pdb_code\<rparr>;
                     pdb_model1 = pdb_model\<lparr>chain := [new_chainType\<lparr>id_attr := Some chain_in'\<rparr>]\<rparr>;
                     pdb_model2 = pdb_model1\<lparr>chain := chain pdb_model1
                                    @ map (\<lambda>c. new_chainType\<lparr>id_attr := Some c\<rparr>) (tl chains_in)\<rparr>;
                     const' = (if tl chains_in = [] then const
                               else Chain_string (last chains_in))
                 in (Return ([pdb_model2], False), const', lg')))
      else (Return ([], False), const, lg))"

text \<open>
  A fitting of the v1.9 entry, with the fields these statements read, and the modelling
  of the v3.0 entry, with the fields they set.
\<close>

record pdbEntryIdListType =
  pdbEntryId :: "string list"
  pdbChainId :: "string list"

record fittingType =
  pdbEntryIdList :: "pdbEntryIdListType option"
  refProtocol :: "string option"

record modelling_type =
  initial_model :: "initial_modelType list"
  refinement_protocol :: "string option"

section \<open>Forward translation: the technique tag\<close>

definition EMM_EC :: string where "EMM_EC = ''electronCrystallography''"
definition EMM_HEL :: string where "EMM_HEL = ''helical''"
definition EMM_SP :: string where "EMM_SP = ''singleParticle''"
definition EMM_STOM :: string where "EMM_STOM = ''subtomogramAveraging''"
definition EMM_TOM :: string where "EMM_TOM = ''tomography''"

text \<open>
  What the statements between \<open>struct_det = emdb30.structure_determination_type()\<close> and
  \<open>sd_list.add_structure_determination(struct_det)\<close> read of a v1.9 entry: the
  processing element with its technique tag and its reconstructions, whether the
  experiment has a specimen preparation, the number of its vitrification elements and its
  imaging elements. The types \<open>'i\<close> and \<open>'r\<close> are the imaging and the reconstruction
  elements.
\<close>

record 'r processType =
  proc_method :: "string option"
  reconstruction :: "'r list"

record ('i, 'r) entry_19 =
  processing :: "'r processType option"
  has_specimenPreparation :: bool
  vitrification_count :: nat
  imaging :: "'i list"

text \<open>
  The functions that fill in a record once its variant is chosen are parameters of the
  model: each returns or raises, as a function of what it is called on.
  \<open>set_base_preparation\<close> reads the vitrification element at the index of the loop that
  calls it, and \<open>set_base_microscopy\<close> the counter of its loop. None of them assigns
  \<open>original_tagname_\<close>.
\<close>

record ('i, 'r) callees =
  set_base_preparation :: "nat \<Rightarrow> unit result"
  set_base_microscopy :: "nat \<Rightarrow> 'i \<Rightarrow> unit result"
  set_tilt_series :: "'i \<Rightarrow> unit result"
  set_single_particle_add_on :: "'r \<Rightarrow> unit result"
  set_tomography_add_on :: "'r \<Rightarrow> unit result"
  set_subtomography_add_on :: "'r \<Rightarrow> unit result"
  set_crystallography_add_on :: "'r \<Rightarrow> unit result"

text \<open>
  A record of the v3.0 object model is represented by its class and its
  \<open>original_tagname_\<close>, which is the element it is written as. The structure
  determination has its method (\<open>None\<close>: not set), the specimen preparations added
  to \<open>spec_prep_list\<close> (the list is set on the structure determination when its
  \<open>hasContent_\<close> holds), its microscopies and its image-processing records. The
  identifiers of the records are not represented.
\<close>

record variant =
  class_name :: string
  original_tagname :: string

record structure_determination_type =
  sd_method :: "string option"
  specimen_preparation_list :: "variant list"
  microscopy_list :: "variant list"
  image_processing :: "variant list"

text \<open>A call that returns nothing, followed by the rest of the statements.\<close>

definition and_then :: "unit result \<Rightarrow> 'a result \<Rightarrow> 'a result" where
  "and_then r k = (case r of Raise err \<Rightarrow> Raise err | Return u \<Rightarrow> k)"

text \<open>
  \<open>em_method\<close>: the tag of the processing element, or single particle when the entry
  has no processing element.
\<close>

definition em_method_in :: "'r processType option \<Rightarrow> string option" where
  "em_method_in process_in =
     (case process_in of
        Some p \<Rightarrow> proc_method p
      | None \<Rightarrow> Some EMM_SP)"

text \<open>
  The method of the structure determination after the \<open>if\<close>/\<open>elif\<close> chain that sets
  it; the chain has no \<open>else\<close>.
\<close>

definition struct_det_method :: "string option \<Rightarrow> string option" where
  "struct_det_method em_method =
     (if em_method \<in> set [Some EMM_SP, Some EMM_STOM, Some EMM_TOM] then em_method
      else if em_method = Some ''twoDCrystal'' then Some EMM_EC
      else if em_method = Some EMM_HEL then Some EMM_HEL
      else None)"

text \<open>
  The body of \<open>for i in range(0, n_sp)\<close> up to \<open>if prep is not None\<close>: \<open>prep\<close>. The
  branch of \<open>twoDCrystal\<close> reads \<open>spec_prep_in.get_crystalGrowDetails\<close>, which raises
  when the experiment has no specimen preparation.
\<close>

definition specimen_preparation ::
  "('i, 'r) callees \<Rightarrow> bool \<Rightarrow> string option \<Rightarrow> nat \<Rightarrow> variant option result" where
  "specimen_preparation c spec_prep_in em_method i =
     (if em_method = Some EMM_TOM then
        and_then (set_base_preparation c i)
          (Return (Some \<lparr>class_name = ''tomography_preparation_type'',
                          original_tagname = ''tomography_preparation''\<rparr>))
      else if em_method = Some EMM_SP then
        and_then (set_base_preparation c i)
          (Return (Some \<lparr>class_name = ''single_particle_preparation_type'',
                          original_tagname = ''single_particle_preparation''\<rparr>))
      else if em_method = Some EMM_STOM then
        and_then (set_base_preparation c i)
          (Return (Some \<lparr>class_name = ''subtomogram_averaging_preparation_type'',
                          original_tagname = ''subtomogram_averaging_preparation''\<rparr>))
      else if em_method = Some EMM_HEL then
        and_then (set_base_preparation c i)
          (Return (Some \<lparr>class_name = ''helical_preparation_type'',
                          original_tagname = ''helical_preparation''\<rparr>))
      else if em_method = Some ''twoDCrystal'' then
        and_then (set_base_preparation c i)
          (if spec_prep_in
           then Return (Some \<lparr>class_name = ''crystallography_preparation_type'',
                               original_tagname = ''crystallography_preparation''\<rparr>)
           else Raise (AttributeError ''get_crystalGrowDetails''))
      else Return None)"

fun specimen_preparations ::
  "('i, 'r) callees \<Rightarrow> bool \<Rightarrow> string option \<Rightarrow> nat list \<Rightarrow> variant list
     \<Rightarrow> variant list result" where
  "specimen_preparations c spec_prep_in em_method [] spec_prep_list = Return spec_prep_list"
| "specimen_preparations c spec_prep_in em_method (i # rest) spec_prep_list =
     (case specimen_preparation c spec_prep_in em_method i of
        Raise err \<Rightarrow> Raise err
      | Return prep \<Rightarrow>
          specimen_preparations c spec_prep_in em_method rest
            (case prep of
               None \<Rightarrow> spec_prep_list
             | Some p \<Rightarrow> spec_prep_list @ [p]))"

text \<open>
  The body of \<open>for img in imaging_list_in\<close> up to \<open>microscopy_list.add_microscopy(mic)\<close>:
  \<open>mic\<close>. This chain does not initialise \<open>mic\<close>, so when no branch is taken the name is
  unbound where it is read. (The branch of \<open>tomography\<close> reads \<open>tom_proc\<close>, which is
  assigned there because the tag comes from a processing element.)
\<close>

definition microscopy ::
  "('i, 'r) callees \<Rightarrow> string option \<Rightarrow> nat \<Rightarrow> 'i \<Rightarrow> variant result" where
  "microscopy c em_method i img =
     (if em_method = Some EMM_SP then
        and_then (set_base_microscopy c i img)
          (Return \<lparr>class_name = ''single_particle_microscopy_type'',
                    original_tagname = ''single_particle_microscopy''\<rparr>)
      else if em_method = Some EMM_HEL then
        and_then (set_base_microscopy c i img)
          (Return \<lparr>class_name = ''helical_microscopy_type'',
                    original_tagname = ''helical_microscopy''\<rparr>)
      else if em_method = Some EMM_TOM then
        and_then (set_base_microscopy c i img)
          (and_then (set_tilt_series c img)
             (Return \<lparr>class_name = ''tomography_microscopy_type'',
                       original_tagname = ''tomography_microscopy''\<rparr>))
      else if em_method = Some EMM_STOM then
        and_then (set_base_microscopy c i img)
          (and_then (set_tilt_series c img)
             (Return \<lparr>class_name = ''tomography_microscopy_type'',
                       original_tagname = ''subtomogram_averaging_microscopy''\<rparr>))
      else if em_method = Some ''twoDCrystal'' then
        and_then (set_base_microscopy c i img)
          (and_then (set_tilt_series c img)
             (Return \<lparr>class_name = ''crystallography_microscopy_type'',
                       original_tagname = ''crystallography_microscopy''\<rparr>))
      else Raise (UnboundLocalError ''mic''))"

fun microscopies ::
  "('i, 'r) callees \<Rightarrow> string option \<Rightarrow> nat \<Rightarrow> 'i list \<Rightarrow> variant list
     \<Rightarrow> variant list result" where
  "microscopies c em_method i [] added = Return added"
| "microscopies c em_method i (img # rest) added =
     (case microscopy c em_method i img of
        Raise err \<Rightarrow> Raise err
      | Return mic \<Rightarrow> microscopies c em_method (i + 1) rest (added @ [mic]))"

text \<open>
  The body of \<open>for reconstruction in recon_in\<close>: the record added to the structure
  determination, if any. \<open>set_helical_add_on\<close> calls \<open>set_final_reconstruction\<close> with
  the keyword argument \<open>helical=True\<close>, which that function does not have: the call
  raises \<open>TypeError\<close> before \<open>struct_det.add_image_processing\<close>.
\<close>

definition set_helical_add_on :: "unit result" where
  "set_helical_add_on =
     Raise (TypeError ''set_final_reconstruction() got an unexpected keyword argument helical'')"

definition image_processing_of ::
  "('i, 'r) callees \<Rightarrow> string option \<Rightarrow> 'r \<Rightarrow> variant option result" where
  "image_processing_of c em_method recon =
     (if em_method = Some EMM_SP then
        and_then (set_single_particle_add_on c recon)
          (Return (Some \<lparr>class_name = ''singleparticle_processing_type'',
                          original_tagname = ''singleparticle_processing''\<rparr>))
      else if em_method = Some EMM_HEL then
        and_then set_helical_add_on
          (Return (Some \<lparr>class_name = ''helical_processing_type'',
                          original_tagname = ''helical_processing''\<rparr>))
      else if em_method = Some EMM_TOM then
        and_then (set_tomography_add_on c recon)
          (Return (Some \<lparr>class_name = ''tomography_processing_type'',
                          original_tagname = ''tomography_processing''\<rparr>))
      else if em_method = Some EMM_STOM then
        and_then (set_subtomography_add_on c recon)
          (Return (Some \<lparr>class_name = ''subtomogram_averaging_processing_type'',
                          original_tagname = ''subtomogram_averaging_processing''\<rparr>))
      else if em_method = Some ''twoDCrystal'' then
        and_then (set_crystallography_add_on c recon)
          (Return (Some \<lparr>class_name = ''crystallography_processing_type'',
                          original_tagname = ''crystallography_processing''\<rparr>))
      else Return None)"

fun image_processings ::
  "('i, 'r) callees \<Rightarrow> string option \<Rightarrow> 'r list \<Rightarrow> variant list \<Rightarrow> variant list result" where
  "image_processings c em_method [] added = Return added"
| "image_processings c em_method (recon # rest) added =
     (case image_processing_of c em_method recon of
        Raise err \<Rightarrow> Raise err
      | Return im_proc \<Rightarrow>
          image_processings c em_method rest
            (case im_proc of
               None \<Rightarrow> added
             | Some p \<Rightarrow> added @ [p]))"

text \<open>
  The structure determination of an entry, or the exception that ends the translation of
  the entry. There are \<open>max(1, len(vitr_in))\<close> passes of the preparation loop; the
  counter of the microscopy loop starts at 1; image-processing records are built only
  when the entry has a processing element.
\<close>

definition translate_structure_determination ::
  "('i, 'r) callees \<Rightarrow> ('i, 'r) entry_19 \<Rightarrow> structure_determination_type result" where
  "translate_structure_determination c xml_in =
     (let process_in = processing xml_in;
          em_method = em_method_in process_in;
          n_sp = max 1 (vitrification_count xml_in)
      in case specimen_preparations c (has_specimenPreparation xml_in) em_method [0..<n_sp] [] of
           Raise err \<Rightarrow> Raise err
         | Return spec_prep_list \<Rightarrow>
             (case microscopies c em_method 1 (imaging xml_in) [] of
                Raise err \<Rightarrow> Raise err
              | Return mics \<Rightarrow>
                  (case (case process_in of
                           None \<Rightarrow> Return []
                         | Some p \<Rightarrow> image_processings c em_method (reconstruction p) []) of
                     Raise err \<Rightarrow> Raise err
                   | Return procs \<Rightarrow>
                       Return \<lparr>sd_method = struct_det_method em_method,
                               specimen_preparation_list = spec_prep_list,
                               microscopy_list = mics,
                               image_processing = procs\<rparr>)))"

section \<open>Forward translation: fields with a closed enumeration\<close>

text \<open>
  \<open>check_set(x.get_f, y.set_g)\<close> for accessors of the generated object model, which read
  and assign an attribute: the statement on the target field and the log.
\<close>

definition copy_field ::
  "translator \<Rightarrow> 'a option \<Rightarrow> 'a option \<times> logging \<Rightarrow> unit result \<times> 'a option \<times> logging" where
  "copy_field self source = check_set self (\<lambda>target. Return source) (\<lambda>v target. (Return (), v)) None"

text \<open>The allow-lists, as the forward translator spells them.\<close>

definition allowed_detectors :: "string list" where
  "allowed_detectors =
     [''AGFA SCIENTA FILM'',
      ''DIRECT ELECTRON DE-10 (5k x 4k)'',
      ''DIRECT ELECTRON DE-12 (4k x 3k)'',
      ''DIRECT ELECTRON DE-16 (4k x 4k)'',
      ''DIRECT ELECTRON DE-20 (5k x 3k)'',
      ''DIRECT ELECTRON DE-64 (8k x 8k)'',
      ''FEI CETA (4k x 4k)'',
      ''FEI EAGLE (2k x 2k)'',
      ''FEI EAGLE (4k x 4k)'',
      ''FEI FALCON I (4k x 4k)'',
      ''FEI FALCON II (4k x 4k)'',
      ''FEI FALCON III (4k x 4k)'',
      ''GATAN K2 (4k x 4k)'',
      ''GATAN K2 BASE (4k x 4k)'',
      ''GATAN K2 IS (4k x 4k)'',
      ''GATAN K2 QUANTUM (4k x 4k)'',
      ''GATAN K2 SUMMIT (4k x 4k)'',
      ''GATAN MULTISCAN'',
      ''GATAN ORIUS SC1000 (4k x 2.7k)'',
      ''GATAN ORIUS SC200 (2k x 2k)'',
      ''GATAN ORIUS SC600 (2.7k x 2.7k)'',
      ''GATAN ULTRASCAN 1000 (2k x 2k)'',
      ''GATAN ULTRASCAN 10000 (10k x 10k)'',
      ''GATAN ULTRASCAN 4000 (4k x 4k)'',
      ''GENERIC CCD'',
      ''GENERIC CCD (2k x 2k)'',
      ''GENERIC CCD (4k x 4k)'',
      ''GENERIC FILM'',
      ''GENERIC GATAN'',
      ''GENERIC GATAN (2k x 2k)'',
      ''GENERIC GATAN (4k x 4k)'',
      ''GENERIC IMAGE PLATES'',
      ''GENERIC TVIPS'',
      ''GENERIC TVIPS (2k x 2k)'',
      ''GENERIC TVIPS (4k x 4k)'',
      ''KODAK 4489 FILM'',
      ''KODAK SO-163 FILM'',
      ''OTHER'',
      ''PROSCAN TEM-PIV (2k x 2k)'',
      ''SIA 15C (3k x 3k)'',
      ''TVIPS TEMCAM-F216 (2k x 2k)'',
      ''TVIPS TEMCAM-F224 (2k x 2k)'',
      ''TVIPS TEMCAM-F415 (4k x 4k)'',
      ''TVIPS TEMCAM-F416 (4k x 4k)'',
      ''TVIPS TEMCAM-F816 (8k x 8k)'']"

definition allowed_cryo_names :: "string list" where
  "allowed_cryo_names =
     [''ETHANE'',
      ''ETHANE-PROPANE MIXTURE'',
      ''METHANE'',
      ''NITROGEN'',
      ''HELIUM'',
      ''PROPANE'',
      ''FREON 12'',
      ''FREON 22'',
      ''NONE'',
      ''OTHER'']"

definition allowed_res_methods :: "string list" where
  "allowed_res_methods =
     [''DIFFRACTION PATTERN/LAYERLINES'',
      ''FSC 0.143 CUT-OFF'',
      ''FSC 0.33 CUT-OFF'',
      ''FSC 0.5 CUT-OFF'',
      ''FSC 1/2 BIT CUT-OFF'',
      ''FSC 3 SIGMA CUT-OFF'',
      ''OTHER'']"

definition allowed_rec_protocols :: "string list" where
  "allowed_rec_protocols =
     [''AB INITIO MODEL'',
      ''BACKBONE TRACE'',
      ''FLEXIBLE FIT'',
      ''OTHER'',
      ''RIGID BODY FIT'']"

text \<open>\<open>Constants.FITTING_19_to_30\<close>.\<close>

definition FITTING_19_to_30 :: "(string \<times> string) list" where
  "FITTING_19_to_30 = [(''flexible'', ''FLEXIBLE FIT''), (''rigid body'', ''RIGID BODY FIT'')]"

text \<open>
  Each function gives the target field (\<open>None\<close>: not set) for the source field. The
  detector model is the value of \<open>film_or_detector_model\<close> in \<open>set_base_microscopy\<close>
  (both of its copies are the same statements).
\<close>

definition film_or_detector_model :: "translator \<Rightarrow> string option \<Rightarrow> string option" where
  "film_or_detector_model self detector_in =
     (case detector_in of
        None \<Rightarrow> None
      | Some d \<Rightarrow>
          (if roundtrip self then Some d
           else (let detect_in = upper d in
                 if detect_in \<in> set allowed_detectors then Some detect_in
                 else Some ''OTHER'')))"

text \<open>The cryogen name, in \<open>set_base_preparation\<close>.\<close>

definition cryogen_name :: "translator \<Rightarrow> string option \<Rightarrow> string option" where
  "cryogen_name self cryo_name =
     (case cryo_name of
        None \<Rightarrow> None
      | Some c \<Rightarrow>
          (if roundtrip self then Some c
           else if c \<in> set allowed_cryo_names then Some c
           else Some ''OTHER''))"

text \<open>
  The specimen-holder model, in \<open>set_base_microscopy\<close>:
  \<open>check_set(img.get_specimenHolderModel, mic.set_specimen_holder_model)\<close>.
\<close>

definition specimen_holder_model :: "translator \<Rightarrow> string option \<Rightarrow> string option" where
  "specimen_holder_model self holder_in = fst (snd (copy_field self holder_in (None, [])))"

text \<open>
  The refinement protocol of a fitting: what \<open>modelling.set_refinement_protocol\<close>
  receives (\<open>None\<close>: it is not called), or the exception. The statements read
  \<open>const.FITTING_19_to_30\<close>, so they depend on what \<open>const\<close> is bound to. The value
  is renamed through the table first; in the branch of an allow-listed value the source
  copies the getter's value with \<open>check_set\<close>.
\<close>

definition const_FITTING_19_to_30 :: "const_binding \<Rightarrow> (string \<times> string) list result" where
  "const_FITTING_19_to_30 const =
     (case const of
        Constants \<Rightarrow> Return FITTING_19_to_30
      | Chain_string s \<Rightarrow> Raise (AttributeError ''FITTING_19_to_30''))"

definition refinement_protocol_of ::
  "translator \<Rightarrow> const_binding \<Rightarrow> string option \<Rightarrow> string option result" where
  "refinement_protocol_of self const refProtocol_in =
     (case refProtocol_in of
        None \<Rightarrow> Return None
      | Some r \<Rightarrow>
          (case const_FITTING_19_to_30 const of
             Raise err \<Rightarrow> Raise err
           | Return table \<Rightarrow>
               (let ref_prot = (case map_of table r of Some n \<Rightarrow> n | None \<Rightarrow> r) in
                Return (if roundtrip self then Some ref_prot
                        else if ref_prot \<in> set allowed_rec_protocols
                        then fst (snd (copy_field self refProtocol_in (None, [])))
                        else Some ''OTHER''))))"

text \<open>
  The statements of the loop \<open>for fit in fitting_list_in\<close> that build the initial
  models and set the refinement protocol of one modelling: the modelling and the flag
  \<open>PDB_entry_id_given\<close>, or the exception that ends the translation of the entry, with
  the binding of \<open>const\<close> and the log after them. (These statements follow the copy of
  the map. That call passes the keyword argument \<open>spec_prep_in\<close>, which
  \<open>copy_map_19_to_30\<close> does not have, so they run for an entry that has no map.)
\<close>

definition translate_fitting ::
  "translator \<Rightarrow> (chainType \<Rightarrow> bool) \<Rightarrow> fittingType \<Rightarrow> const_binding \<times> logging
     \<Rightarrow> (modelling_type \<times> bool) result \<times> const_binding \<times> logging" where
  "translate_fitting self hasContent fit = (\<lambda>(const, lg).
     (let (models, const', lg') =
            (case pdbEntryIdList fit of
               None \<Rightarrow> (Return ([], False), const, lg)
             | Some pdb_list_in \<Rightarrow>
                 translate_pdbEntryIdList self hasContent const
                   (pdbEntryId pdb_list_in) (pdbChainId pdb_list_in) lg)
      in case models of
           Raise err \<Rightarrow> (Raise err, const', lg')
         | Return (initial_models, PDB_entry_id_given) \<Rightarrow>
             (case refinement_protocol_of self const' (refProtocol fit) of
                Raise err \<Rightarrow> (Raise err, const', lg')
              | Return ref_prot \<Rightarrow>
                  (Return (\<lparr>initial_model = initial_models, refinement_protocol = ref_prot\<rparr>,
                           PDB_entry_id_given),
                   const', lg'))))"

text \<open>The loop over the fittings, from the binding of \<open>const\<close> and the log before it.\<close>

fun translate_fitting_list ::
  "translator \<Rightarrow> (chainType \<Rightarrow> bool) \<Rightarrow> fittingType list \<Rightarrow> (modelling_type \<times> bool) list
     \<Rightarrow> const_binding \<times> logging
     \<Rightarrow> (modelling_type \<times> bool) list result \<times> const_binding \<times> logging" where
  "translate_fitting_list self hasContent [] modelling_list (const, lg) =
     (Return modelling_list, const, lg)"
| "translate_fitting_list self hasContent (fit # rest) modelling_list (const, lg) =
     (case translate_fitting self hasContent fit (const, lg) of
        (Raise err, const', lg') \<Rightarrow> (Raise err, const', lg')
      | (Return modelling, const', lg') \<Rightarrow>
          translate_fitting_list self hasContent rest (modelling_list @ [modelling]) (const', lg'))"

text \<open>
  The resolution method, in \<open>set_final_reconstruction\<close>. The statements do not read the
  round-trip flag, and a method that is absent is not in the list.
\<close>

definition resolution_method :: "translator \<Rightarrow> string option \<Rightarrow> string option" where
  "resolution_method self res_method =
     (if res_method \<in> set (map Some allowed_res_methods)
      then fst (snd (copy_field self res_method (None, [])))
      else Some ''OTHER'')"

section \<open>Reverse translation: image acquisitions\<close>

text \<open>
  The v3.0 image recording and its digitization details, with the fields the reverse
  translator reads for an image acquisition. Numbers that the schema types as floats are
  of a type \<open>'f\<close>: the statements only copy and compare them.
\<close>

record 'f digitization_detailsType =
  scanner :: "string option"
  sampling_interval :: "'f value_and_units option"

record 'f image_recordingType =
  number_real_images :: "int option"
  digitization_details :: "'f digitization_detailsType option"
  od_range :: "'f option"
  bits_per_pixel :: "'f option"
  details :: "string option"

record 'f microscopyType =
  image_recording_list :: "'f image_recordingType list option"

text \<open>
  The dictionary \<open>image_acquasition\<close> built for one image recording. The keys
  \<open>numDigitalImages\<close>, \<open>odRange\<close>, \<open>quantBitNumber\<close> and \<open>details\<close> are always
  stored, with the value \<open>None\<close> for an absent field, so the dictionary is never the
  empty one; \<open>scanner\<close>, \<open>samplingSize\<close> and \<open>URLRawData\<close> are stored under a
  condition, and for them the outer \<open>None\<close> is a key that is not in the dictionary. Two
  dictionaries are equal (\<open>cmp(a, b) == 0\<close>) when they have the same keys with equal
  values, which is the equality of these records.
\<close>

record 'f image_acquasition_dict =
  key_numDigitalImages :: "int option"
  key_scanner :: "string option option"
  key_samplingSize :: "'f option"
  key_odRange :: "'f option"
  key_URLRawData :: "string option option"
  key_quantBitNumber :: "'f option"
  key_details :: "string option"

text \<open>The v1.9 image acquisition \<open>imgScanType\<close>.\<close>

record 'f imgScanType =
  numDigitalImages :: "int option"
  scanner_19 :: "string option"
  samplingSize :: "'f value_and_units option"
  odRange :: "'f option"
  URLRawData :: "string option"
  quantBitNumber :: "'f option"
  details_19 :: "string option"

definition U_MCRN :: string where
  "U_MCRN = ''microns''"

text \<open>
  The link of the first auxiliary link of the cross references, when the list of
  auxiliary links is present and not empty (the outer \<open>None\<close> otherwise).
\<close>

definition first_auxiliary_link :: "string option list option \<Rightarrow> string option option" where
  "first_auxiliary_link aux_list_in =
     (case aux_list_in of
        None \<Rightarrow> None
      | Some links \<Rightarrow> (case links of [] \<Rightarrow> None | l # ls \<Rightarrow> Some l))"

definition image_acquasition ::
  "string option list option \<Rightarrow> 'f image_recordingType \<Rightarrow> 'f image_acquasition_dict" where
  "image_acquasition aux_list_in im_rec_in =
     \<lparr>key_numDigitalImages = number_real_images im_rec_in,
      key_scanner =
        (case digitization_details im_rec_in of
           None \<Rightarrow> None
         | Some dig_in \<Rightarrow> Some (scanner dig_in)),
      key_samplingSize =
        (case digitization_details im_rec_in of
           None \<Rightarrow> None
         | Some dig_in \<Rightarrow>
             (case sampling_interval dig_in of
                None \<Rightarrow> None
              | Some sample_interval \<Rightarrow> Some (valueOf sample_interval))),
      key_odRange = od_range im_rec_in,
      key_URLRawData = first_auxiliary_link aux_list_in,
      key_quantBitNumber = bits_per_pixel im_rec_in,
      key_details = details im_rec_in\<rparr>"

text \<open>
  The record \<open>im_ac\<close> built for one image recording, by \<open>check_set\<close> and
  \<open>set_value_and_units\<close> on accessors of the generated object model (a field is
  assigned when its source is present; the sampling size takes the unit \<open>microns\<close>).
\<close>

definition im_ac_of ::
  "string option list option \<Rightarrow> 'f image_recordingType \<Rightarrow> 'f imgScanType" where
  "im_ac_of aux_list_in im_rec_in =
     \<lparr>numDigitalImages = number_real_images im_rec_in,
      scanner_19 =
        (case digitization_details im_rec_in of
           None \<Rightarrow> None
         | Some dig_in \<Rightarrow> scanner dig_in),
      samplingSize =
        (case digitization_details im_rec_in of
           None \<Rightarrow> None
         | Some dig_in \<Rightarrow>
             (case sampling_interval dig_in of
                None \<Rightarrow> None
              | Some x_value \<Rightarrow> Some \<lparr>valueOf = valueOf x_value, units = Some U_MCRN\<rparr>)),
      odRange = od_range im_rec_in,
      URLRawData =
        (case first_auxiliary_link aux_list_in of
           None \<Rightarrow> None
         | Some link \<Rightarrow> link),
      quantBitNumber = bits_per_pixel im_rec_in,
      details_19 = details im_rec_in\<rparr>"

text \<open>
  One pass of the inner loop, on the dictionaries registered so far (\<open>image_acquasitions\<close>,
  in the order of their keys 1, 2, ...) and the acquisitions added to the experiment. With
  no dictionary registered the source registers the new one without a comparison; a
  dictionary is never empty, so the tests \<open>image_acquasition != {}\<close> are true. The
  \<open>hasContent_\<close> of the generated class \<open>imgScanType\<close> is the parameter \<open>hasContent\<close>.
\<close>

definition add_imageAcquisition ::
  "translator \<Rightarrow> ('f imgScanType \<Rightarrow> bool) \<Rightarrow> 'f imgScanType \<Rightarrow> 'f imgScanType list
     \<Rightarrow> 'f imgScanType list" where
  "add_imageAcquisition self hasContent im_ac acquisitions =
     (if roundtrip self then (if hasContent im_ac then acquisitions @ [im_ac] else acquisitions)
      else acquisitions @ [im_ac])"

definition acquisition_step ::
  "translator \<Rightarrow> ('f imgScanType \<Rightarrow> bool) \<Rightarrow> string option list option
     \<Rightarrow> 'f image_recordingType
     \<Rightarrow> 'f image_acquasition_dict list \<times> 'f imgScanType list
     \<Rightarrow> 'f image_acquasition_dict list \<times> 'f imgScanType list" where
  "acquisition_step self hasContent aux_list_in im_rec_in = (\<lambda>(image_acquasitions, acquisitions).
     (let im_ac = im_ac_of aux_list_in im_rec_in;
          image_acquasition = image_acquasition aux_list_in im_rec_in
      in if image_acquasitions \<noteq> [] then
           (let is_same = (\<exists>im_acq \<in> set image_acquasitions. im_acq = image_acquasition)
            in if \<not> is_same
               then (image_acquasitions @ [image_acquasition],
                     add_imageAcquisition self hasContent im_ac acquisitions)
               else (image_acquasitions, acquisitions))
         else (image_acquasitions @ [image_acquasition],
               add_imageAcquisition self hasContent im_ac acquisitions)))"

text \<open>The image recordings in the order the two loops visit them.\<close>

definition image_recordings :: "'f microscopyType list \<Rightarrow> 'f image_recordingType list" where
  "image_recordings mic_list_in =
     concat (map (\<lambda>mic_in. case image_recording_list mic_in of None \<Rightarrow> [] | Some im_recs \<Rightarrow> im_recs)
                 mic_list_in)"

definition translate_imageAcquisition ::
  "translator \<Rightarrow> ('f imgScanType \<Rightarrow> bool) \<Rightarrow> string option list option
     \<Rightarrow> 'f microscopyType list \<Rightarrow> 'f imgScanType list" where
  "translate_imageAcquisition self hasContent aux_list_in mic_list_in =
     snd (fold (acquisition_step self hasContent aux_list_in)
               (image_recordings mic_list_in) ([], []))"

text \<open>
  A \<open>hasContent_\<close> as generateDS writes it for a class with only optional members: some
  member is set. It instantiates the parameter in the examples.
\<close>

definition some_member_set :: "'f imgScanType \<Rightarrow> bool" where
  "some_member_set im_ac =
     (numDigitalImages im_ac \<noteq> None \<or> scanner_19 im_ac \<noteq> None \<or> samplingSize im_ac \<noteq> None
      \<or> odRange im_ac \<noteq> None \<or> URLRawData im_ac \<noteq> None \<or> quantBitNumber im_ac \<noteq> None
      \<or> details_19 im_ac \<noteq> None)"

section \<open>Python floats\<close>

text \<open>
  A Python float is an IEEE 754 binary64 number. A finite one is the rational it denotes
  (the sign of zero is not kept). \<open>round_to_double\<close> rounds a rational to the nearest
  double, ties to the even significand: the significand has 53 bits, the least exponent
  of a unit in the last place is \<open>-1074\<close>, and a result of \<open>2^1024\<close> or more is an
  infinity.
\<close>

datatype double = Finite rat | Infinity bool | NaN

text \<open>The number of bits of a positive integer.\<close>

function bitlength :: "int \<Rightarrow> nat" where
  "bitlength n = (if n \<le> 0 then 0 else Suc (bitlength (n div 2)))"
  by pat_completeness auto
termination
  by (relation "measure nat") auto

declare bitlength.simps [simp del]

definition pow2 :: "int \<Rightarrow> rat" where
  "pow2 e = 2 powi e"

text \<open>The integer \<open>e\<close> with \<open>2^e \<le> x < 2^(e+1)\<close>, for a positive \<open>x\<close>.\<close>

definition binary_exponent :: "rat \<Rightarrow> int" where
  "binary_exponent x =
     (let (p, q) = quotient_of x;
          k = int (bitlength p) - int (bitlength q)
      in if pow2 k \<le> x then k else k - 1)"

definition round_half_even :: "rat \<Rightarrow> int" where
  "round_half_even x =
     (let f = \<lfloor>x\<rfloor>; d = x - of_int f
      in if d < 1 / 2 then f
         else if 1 / 2 < d then f + 1
         else if even f then f else f + 1)"

definition round_to_double :: "rat \<Rightarrow> double" where
  "round_to_double x =
     (if x = 0 then Finite 0
      else (let a = \<bar>x\<bar>;
                e = max (binary_exponent a - 52) (- 1074);
                r = of_int (round_half_even (a / pow2 e)) * pow2 e
            in if pow2 1024 \<le> r then Infinity (x < 0)
               else Finite (if x < 0 then - r else r)))"

text \<open>\<open>a * b\<close> on floats.\<close>

fun float_mul :: "double \<Rightarrow> double \<Rightarrow> double" where
  "float_mul (Finite a) (Finite b) = round_to_double (a * b)"
| "float_mul NaN b = NaN"
| "float_mul a NaN = NaN"
| "float_mul (Infinity s) (Finite b) = (if b = 0 then NaN else Infinity (s \<noteq> (b < 0)))"
| "float_mul (Finite a) (Infinity s) = (if a = 0 then NaN else Infinity (s \<noteq> (a < 0)))"
| "float_mul (Infinity s) (Infinity t) = Infinity (s \<noteq> t)"

text \<open>
  \<open>float(s)\<close> on a byte string. White space around the numeral is dropped; a sign may
  come first; then \<open>inf\<close>, \<open>infinity\<close> or \<open>nan\<close> in any case, or a decimal numeral:
  digits with an optional point, at least one digit before or after the point, and an
  optional exponent \<open>e\<close> or \<open>E\<close> with an optional sign and at least one digit. The
  value is the double nearest to the decimal. Every other string raises \<open>ValueError\<close>.
\<close>

definition is_space :: "char \<Rightarrow> bool" where
  "is_space c = (c \<in> set [CHR '' '', CHR 0x09, CHR 0x0A, CHR 0x0B, CHR 0x0C, CHR 0x0D])"

definition strip :: "string \<Rightarrow> string" where
  "strip s = rev (dropWhile is_space (rev (dropWhile is_space s)))"

definition split_sign :: "string \<Rightarrow> bool \<times> string" where
  "split_sign s =
     (case s of
        c # cs \<Rightarrow> (if c = CHR ''-'' then (True, cs)
                   else if c = CHR ''+'' then (False, cs) else (False, s))
      | [] \<Rightarrow> (False, s))"

definition digit_value :: "char \<Rightarrow> nat" where
  "digit_value c =
     (case map_of [(CHR ''0'', 0), (CHR ''1'', 1), (CHR ''2'', 2), (CHR ''3'', 3), (CHR ''4'', 4),
                   (CHR ''5'', 5), (CHR ''6'', 6), (CHR ''7'', 7), (CHR ''8'', 8), (CHR ''9'', 9)] c of
        Some d \<Rightarrow> d
      | None \<Rightarrow> 0)"

definition decimal_value :: "string \<Rightarrow> nat" where
  "decimal_value ds = foldl (\<lambda>n c. 10 * n + digit_value c) 0 ds"

text \<open>The exponent part of a numeral: absent, or \<open>e\<close> with its signed digits.\<close>

definition exponent :: "string \<Rightarrow> int option" where
  "exponent r =
     (case r of
        [] \<Rightarrow> Some 0
      | c # cs \<Rightarrow>
          (if c = CHR ''e'' \<or> c = CHR ''E'' then
             (let (negative, ds) = split_sign cs
              in if ds \<noteq> [] \<and> (\<forall>d \<in> set ds. is_digit d)
                 then Some (if negative then - int (decimal_value ds) else int (decimal_value ds))
                 else None)
           else None))"

definition unsigned_decimal :: "string \<Rightarrow> rat option" where
  "unsigned_decimal s =
     (let whole = takeWhile is_digit s;
          after_whole = dropWhile is_digit s;
          (frac, after_frac) =
            (case after_whole of
               c # cs \<Rightarrow> (if c = CHR ''.'' then (takeWhile is_digit cs, dropWhile is_digit cs)
                          else ([], after_whole))
             | [] \<Rightarrow> ([], after_whole))
      in if whole = [] \<and> frac = [] then None
         else (case exponent after_frac of
                 None \<Rightarrow> None
               | Some e \<Rightarrow>
                   Some (of_nat (decimal_value (whole @ frac)) * 10 powi (e - int (length frac)))))"

definition py_float :: "string \<Rightarrow> double result" where
  "py_float s =
     (let (negative, body) = split_sign (strip s)
      in if lower body = ''inf'' \<or> lower body = ''infinity'' then Return (Infinity negative)
         else if lower body = ''nan'' then Return NaN
         else (case unsigned_decimal body of
                 None \<Rightarrow> Raise (ValueError s)
               | Some x \<Rightarrow> Return (round_to_double (if negative then - x else x))))"

text \<open>A Python number, as a value of an element: \<open>12\<close> is not \<open>12.0\<close>.\<close>

datatype number = PyInt int | PyFloat double

text \<open>\<open>int(x)\<close> on a float truncates towards zero, and raises on an infinity or a NaN.\<close>

definition py_int :: "double \<Rightarrow> int result" where
  "py_int x =
     (case x of
        Finite r \<Rightarrow> Return (if 0 \<le> r then \<lfloor>r\<rfloor> else \<lceil>r\<rceil>)
      | Infinity s \<Rightarrow> Raise (Exception ''OverflowError: cannot convert float infinity to integer'')
      | NaN \<Rightarrow> Raise (ValueError ''cannot convert float NaN to integer''))"

text \<open>\<open>s.find(t) != -1\<close>: \<open>t\<close> occurs in \<open>s\<close>. \<open>s.replace(t, '')\<close> for a non-empty \<open>t\<close>.\<close>

fun occurs_in :: "string \<Rightarrow> string \<Rightarrow> bool" where
  "occurs_in t [] = (t = [])"
| "occurs_in t (c # cs) = (take (length t) (c # cs) = t \<or> occurs_in t cs)"

function remove_all :: "string \<Rightarrow> string \<Rightarrow> string" where
  "remove_all t [] = []"
| "remove_all t (c # cs) =
     (if t \<noteq> [] \<and> take (length t) (c # cs) = t
      then remove_all t (drop (length t) (c # cs))
      else c # remove_all t cs)"
  by pat_completeness auto
termination
  by (relation "measure (\<lambda>(t, s). length s)") auto

section \<open>The nominal defocus\<close>

definition U_NM :: string where
  "U_NM = ''nm''"

text \<open>\<open>U_MICROM\<close> is the micro sign (U+00B5) followed by \<open>m\<close>.\<close>

definition U_MICROM :: string where
  "U_MICROM = [char_of (181 :: nat), CHR ''m'']"

definition min_is_int :: string where
  "min_is_int = ''{nominal defocus min is int}''"

definition max_is_int :: string where
  "max_is_int = ''{nominal defocus max is int}''"

text \<open>The float literal \<open>0.001\<close>.\<close>

definition float_0_001 :: double where
  "float_0_001 = round_to_double (1 / 1000)"

text \<open>
  Forward, in \<open>set_base_microscopy\<close>: the target's nominal defocus and the text to add
  to the details. In the branch of a unit other than \<open>nm\<close> the source reads
  \<open>nominal_defoc_min_val\<close>, which only the \<open>nm\<close> branch assigns. The branches of the
  minimum and of the maximum differ: the minimum tests the unit for the micrometre, the
  maximum takes every other unit.
\<close>

definition nominal_defocus_forward ::
  "string \<Rightarrow> bool \<Rightarrow> string value_and_units option
     \<Rightarrow> (double value_and_units option \<times> string) result" where
  "nominal_defocus_forward marker is_max nominal_defoc =
     (case nominal_defoc of
        None \<Rightarrow> Return (None, [])
      | Some d \<Rightarrow>
          (case units d of
             None \<Rightarrow> Return (None, [])
           | Some units_def \<Rightarrow>
               (if units_def = U_NM then
                  (let nominal_defoc_val = valueOf d;
                       add_to_details = (if CHR ''.'' \<notin> set nominal_defoc_val then marker else [])
                   in case py_float nominal_defoc_val of
                        Raise err \<Rightarrow> Raise err
                      | Return f \<Rightarrow>
                          Return (Some \<lparr>valueOf = float_mul f float_0_001, units = Some U_MICROM\<rparr>,
                                  add_to_details))
                else if is_max \<or> units_def = U_MICROM
                then Raise (UnboundLocalError ''nominal_defoc_val'')
                else Return (None, []))))"

text \<open>The defocus fields and the details of the v1.9 imaging and of the v3.0 microscopy.\<close>

record imgType =
  nominalDefocusMin :: "string value_and_units option"
  nominalDefocusMax :: "string value_and_units option"
  img_details :: "string option"

record microscopy_defocus =
  nominal_defocus_min :: "double value_and_units option"
  nominal_defocus_max :: "double value_and_units option"
  mic_details :: "string option"

definition defocus_forward :: "imgType \<Rightarrow> microscopy_defocus result" where
  "defocus_forward img =
     (case nominal_defocus_forward min_is_int False (nominalDefocusMin img) of
        Raise err \<Rightarrow> Raise err
      | Return (defocus_min, add_to_details_nom_defocus_min) \<Rightarrow>
          (case nominal_defocus_forward max_is_int True (nominalDefocusMax img) of
             Raise err \<Rightarrow> Raise err
           | Return (defocus_max, add_to_details_nom_defocus_max) \<Rightarrow>
               Return \<lparr>nominal_defocus_min = defocus_min,
                       nominal_defocus_max = defocus_max,
                       mic_details =
                         (case img_details img of
                            Some im_details \<Rightarrow>
                              Some (im_details @ add_to_details_nom_defocus_min
                                      @ add_to_details_nom_defocus_max)
                          | None \<Rightarrow>
                              (if add_to_details_nom_defocus_min \<noteq> []
                                  \<or> add_to_details_nom_defocus_max \<noteq> []
                               then Some (add_to_details_nom_defocus_min
                                            @ add_to_details_nom_defocus_max)
                               else None))\<rparr>))"

text \<open>
  Reverse, in \<open>translate_3_0_to_1_9\<close>: the v1.9 defocus is the float times 1000, or in
  round-trip mode and with the marker in the details, \<open>int\<close> of it. The markers are
  taken out of the details in both modes, and details that become empty are not set. What
  the v3.0 element holds is the float the forward translation stored.
\<close>

record imgType_out =
  nominalDefocusMin_out :: "number value_and_units option"
  nominalDefocusMax_out :: "number value_and_units option"
  details_out :: "string option"

definition nominal_defocus_reverse ::
  "translator \<Rightarrow> string \<Rightarrow> string option \<Rightarrow> double value_and_units option
     \<Rightarrow> number value_and_units option result" where
  "nominal_defocus_reverse self marker details_in nom_defocus =
     (case nom_defocus of
        None \<Rightarrow> Return None
      | Some d \<Rightarrow>
          (let nom_defocus_val = float_mul (valueOf d) (Finite 1000)
           in if roundtrip self \<and> details_in \<noteq> None \<and> occurs_in marker (the details_in)
              then (case py_int nom_defocus_val of
                      Raise err \<Rightarrow> Raise err
                    | Return n \<Rightarrow> Return (Some \<lparr>valueOf = PyInt n, units = Some ''nm''\<rparr>))
              else Return (Some \<lparr>valueOf = PyFloat nom_defocus_val, units = Some ''nm''\<rparr>)))"

definition defocus_reverse :: "translator \<Rightarrow> microscopy_defocus \<Rightarrow> imgType_out result" where
  "defocus_reverse self mic_in =
     (case nominal_defocus_reverse self min_is_int (mic_details mic_in) (nominal_defocus_min mic_in) of
        Raise err \<Rightarrow> Raise err
      | Return defocus_min \<Rightarrow>
          (case nominal_defocus_reverse self max_is_int (mic_details mic_in)
                  (nominal_defocus_max mic_in) of
             Raise err \<Rightarrow> Raise err
           | Return defocus_max \<Rightarrow>
               Return \<lparr>nominalDefocusMin_out = defocus_min,
                       nominalDefocusMax_out = defocus_max,
                       details_out =
                         (case mic_details mic_in of
                            None \<Rightarrow> None
                          | Some details0 \<Rightarrow>
                              (let details1 =
                                     (if occurs_in min_is_int details0
                                      then remove_all min_is_int details0 else details0);
                                   details2 =
                                     (if occurs_in max_is_int details1
                                      then remove_all max_is_int details1 else details1)
                               in if details2 \<noteq> [] then Some details2 else None))\<rparr>))"

section \<open>The resolution method of a reconstruction, there and back\<close>

text \<open>
  Reverse, in \<open>translate_3_0_to_1_9\<close>:
  \<open>check_set(final_reconstruct_in.get_resolution_method, rec.set_resolutionMethod)\<close>.
\<close>

definition resolutionMethod_reverse :: "translator \<Rightarrow> string option \<Rightarrow> string option" where
  "resolutionMethod_reverse self resolution_method_in =
     fst (snd (copy_field self resolution_method_in (None, [])))"

text \<open>
  The resolution method of the v1.9 reconstruction that the translation to v3.0 and back
  gives, for the resolution method of a v1.9 reconstruction.
\<close>

definition resolutionMethod_round_trip :: "translator \<Rightarrow> string option \<Rightarrow> string option" where
  "resolutionMethod_round_trip self resolutionMethod =
     resolutionMethod_reverse self (resolution_method self resolutionMethod)"

section \<open>Helper facts\<close>

lemmas char_defs =
  is_digit_def is_alnum_def digits_def lower_def lower_char_def upper_def upper_char_def
  upper_letters_def lower_letters_def












lemma takeWhile_run:
  assumes "\<forall>c\<in>set ds. P c" "rest = [] \<or> \<not> P (hd rest)"
  shows "takeWhile P (ds @ rest) = ds"
proof -
  have "takeWhile P rest = []"
    using assms(2) by (cases rest) auto
  with assms(1) show ?thesis
    by (simp add: takeWhile_append2)
qed




section \<open>The accession code\<close>



section \<open>The guarded copy\<close>

lemma block_append:
  "block (pre @ post) s =
     (case block pre s of
        (Raise err, s') \<Rightarrow> (Raise err, s')
      | (Return u, s') \<Rightarrow> block post s')"
  by (induction pre arbitrary: s) (auto split: prod.splits result.splits)

lemma check_set_returns:
  assumes "get_value s = Return r"
  shows "fst (check_set self get_value set_value transform (s, lg)) = Return ()"
  using assms
  by (auto simp: check_set_def split: option.splits result.splits prod.splits)

text \<open>
  Claim C2. For every getter, setter and optional transform handed to \<open>check_set\<close>:
  when the getter returns \<open>None\<close> the call changes nothing, whatever the setter is, so the
  setter is not invoked; when the transform raises, the call returns normally, the graph
  is as before, whatever the setter is, and the exception goes to \<open>warn\<close> at level 3
  (message and traceback), which logs it at warning level 3; when the setter raises, the
  call returns normally and the exception goes to \<open>warn\<close> in the same way. Whenever the
  getter returns, the call returns normally, so the statements after it in a translation
  run: a transform or a setter that raises does not abort the entry.
\<close>

theorem check_set_never_propagates:
  "(get_value s = Return None \<longrightarrow>
      check_set self get_value set_value transform (s, lg) = (Return (), s, lg))
   \<and> (get_value s = Return (Some v) \<and> transform = Some t \<and> t v = Raise err \<longrightarrow>
        check_set self get_value set_value transform (s, lg)
          = (Return (), s,
             warn self 3 (Traceback err) (warn self 3 (Check_set_transform_failed err) lg))
        \<and> (3 \<le> warning_level self \<longrightarrow>
             snd (snd (check_set self get_value set_value transform (s, lg)))
               = lg @ [Check_set_transform_failed err, Traceback err]))
   \<and> (get_value s = Return (Some v)
        \<and> (case transform of None \<Rightarrow> Return (Some v) | Some t \<Rightarrow> t v) = Return w
        \<and> set_value w s = (Raise err, s') \<longrightarrow>
        check_set self get_value set_value transform (s, lg)
          = (Return (), s',
             warn self 3 (Traceback err) (warn self 3 (Check_set_setter_failed err) lg))
        \<and> (3 \<le> warning_level self \<longrightarrow>
             snd (snd (check_set self get_value set_value transform (s, lg)))
               = lg @ [Check_set_setter_failed err, Traceback err]))
   \<and> (get_value s = Return r \<longrightarrow>
        fst (check_set self get_value set_value transform (s, lg)) = Return ()
        \<and> block (check_set self get_value set_value transform # rest) (s, lg)
            = block rest (snd (check_set self get_value set_value transform (s, lg))))"
proof -
  have last: "get_value s = Return r \<Longrightarrow>
      block (check_set self get_value set_value transform # rest) (s, lg)
        = block rest (snd (check_set self get_value set_value transform (s, lg)))"
    using check_set_returns[of get_value s r self set_value transform lg]
    by (cases "check_set self get_value set_value transform (s, lg)") simp
  show ?thesis
    using last check_set_returns[of get_value s r self set_value transform lg]
    by (auto simp: check_set_def warn_def split: option.splits result.splits prod.splits)
qed

text \<open>
  The witness copies a field of a pair (source field, target field): an absent source, a
  transform that raises, a setter that raises, and a copy that succeeds and is followed
  by a second statement.
\<close>

theorem check_set_never_propagates_witness:
  "check_set (init\<lparr>warning_level := 3\<rparr>) (\<lambda>s. Return (fst s))
       (\<lambda>v s. (Return (), (fst s, v))) None ((None, Some ''old''), [])
     = (Return (), (None :: string option, Some ''old''), [])
   \<and> check_set (init\<lparr>warning_level := 3\<rparr>) (\<lambda>s. Return (fst s))
       (\<lambda>v s. (Return (), (fst s, v))) (Some (\<lambda>v. Raise (ValueError ''float'')))
       ((Some ''abc'', None :: string option), [])
     = (Return (), (Some ''abc'', None :: string option),
        [Check_set_transform_failed (ValueError ''float''), Traceback (ValueError ''float'')])
   \<and> check_set (init\<lparr>warning_level := 3\<rparr>) (\<lambda>s. Return (fst s))
       (\<lambda>v s. (Raise (Exception ''rejected''), s)) None ((Some ''abc'', None :: string option), [])
     = (Return (), (Some ''abc'', None :: string option),
        [Check_set_setter_failed (Exception ''rejected''), Traceback (Exception ''rejected'')])
   \<and> block [check_set init (\<lambda>s. Return (fst s)) (\<lambda>v s. (Return (), (fst s, v))) None,
             (\<lambda>(s, lg). (Return (), (None, snd s), lg))] ((Some ''abc'', None :: string option), [])
     = (Return (), (None, Some ''abc''), [])"
proof -
  let ?self = "init\<lparr>warning_level := 3\<rparr>"
  let ?get = "\<lambda>s :: string option \<times> string option. Return (fst s) :: string option result"
  let ?set = "\<lambda>(v :: string option) (s :: string option \<times> string option). (Return (), (fst s, v))"
  let ?bad = "\<lambda>(v :: string option) (s :: string option \<times> string option).
                (Raise (Exception ''rejected'') :: unit result, s)"
  have lvl: "3 \<le> warning_level ?self" by simp
  note a = check_set_never_propagates[where get_value = ?get and set_value = ?set
      and transform = None and s = "(None, Some ''old'')" and self = ?self and lg = "[]"]
  note b = check_set_never_propagates[where get_value = ?get and set_value = ?set
      and transform = "Some (\<lambda>v. Raise (ValueError ''float''))" and t = "\<lambda>v. Raise (ValueError ''float'')"
      and v = "''abc''" and err = "ValueError ''float''"
      and s = "(Some ''abc'', None)" and self = ?self and lg = "[]"]
  note c = check_set_never_propagates[where get_value = ?get and set_value = ?bad
      and transform = None and v = "''abc''" and w = "Some ''abc''" and err = "Exception ''rejected''"
      and s = "(Some ''abc'', None)" and s' = "(Some ''abc'', None)" and self = ?self and lg = "[]"]
  note d = check_set_never_propagates[where get_value = ?get and set_value = ?set
      and transform = None and r = "Some ''abc''" and s = "(Some ''abc'', None)" and self = init
      and lg = "[]" and rest = "[\<lambda>(s, lg). (Return (), (None, snd s), lg)]"]
  have d': "check_set init ?get ?set None ((Some ''abc'', None), [])
              = (Return (), (Some ''abc'', Some ''abc''), [])"
    by (simp add: check_set_def)
  have c1: "check_set ?self ?get ?set None ((None, Some ''old''), [])
              = (Return (), (None, Some ''old''), [])"
    using a by simp
  have c2: "check_set ?self ?get ?set (Some (\<lambda>v. Raise (ValueError ''float'')))
              ((Some ''abc'', None), [])
            = (Return (), (Some ''abc'', None),
               [Check_set_transform_failed (ValueError ''float''), Traceback (ValueError ''float'')])"
    using b lvl by (simp add: warn_def)
  have c3: "check_set ?self ?get ?bad None ((Some ''abc'', None), [])
            = (Return (), (Some ''abc'', None),
               [Check_set_setter_failed (Exception ''rejected''), Traceback (Exception ''rejected'')])"
    using c lvl by (simp add: warn_def)
  have "block [check_set init ?get ?set None, (\<lambda>(s, lg). (Return (), (None, snd s), lg))]
          ((Some ''abc'', None), [])
        = block [\<lambda>(s, lg). (Return (), (None, snd s), lg)]
            (snd (check_set init ?get ?set None ((Some ''abc'', None), [])))"
    using d by simp
  then have c4: "block [check_set init ?get ?set None, (\<lambda>(s, lg). (Return (), (None, snd s), lg))]
          ((Some ''abc'', None), [])
        = (Return (), (None, Some ''abc''), [])"
    by (simp add: d')
  show ?thesis
    using c1 c2 c3 c4 by simp
qed

section \<open>A getter that raises\<close>

text \<open>
  Claim C10. The handlers of the transfer primitives enclose the transform and the
  setter only. In \<open>check_set\<close> and in \<open>set_value_and_units\<close> the getter is called before
  any \<open>try\<close>: when it raises, the primitive raises the same exception, nothing is logged,
  the graph is as before, and in a translation the statements after the call do not run,
  so the exception is the outcome of the whole sequence.
\<close>

theorem getter_exception_propagates:
  "(get_value s = Raise err \<longrightarrow>
      check_set self get_value set_value transform (s, lg) = (Raise err, s, lg)
      \<and> block (check_set self get_value set_value transform # rest) (s, lg)
          = (Raise err, s, lg))
   \<and> (getter s = Raise err \<longrightarrow>
      set_value_and_units self getter setter constructor units_arg transform' (s, lg)
        = (Raise err, s, lg)
      \<and> block (set_value_and_units self getter setter constructor units_arg transform' # rest)
            (s, lg)
          = (Raise err, s, lg))"
  by (simp add: check_set_def set_value_and_units_def)

theorem getter_exception_propagates_witness:
  "check_set (init\<lparr>warning_level := 3\<rparr>) (\<lambda>s. Raise (AttributeError ''get_details''))
       (\<lambda>v s. (Return (), v)) None (Some ''old'', [])
     = (Raise (AttributeError ''get_details''), Some ''old'', [])
   \<and> block [check_set (init\<lparr>warning_level := 3\<rparr>) (\<lambda>s. Raise (AttributeError ''get_details''))
               (\<lambda>v s. (Return (), v)) None,
             (\<lambda>(s, lg). (Return (), Some ''later'', lg))] (Some ''old'', [])
     = (Raise (AttributeError ''get_details''), Some ''old'', [])
   \<and> set_value_and_units (init\<lparr>warning_level := 3\<rparr>)
       (\<lambda>s. Raise (AttributeError ''get_min_angle''))
       (\<lambda>v s. (Return (), v)) (\<lambda>v u. (v :: string, u)) (Some ''degrees'') None (None, [])
     = (Raise (AttributeError ''get_min_angle''), None, [])"
proof -
  let ?self = "init\<lparr>warning_level := 3\<rparr>"
  note a = getter_exception_propagates[where get_value = "\<lambda>s. Raise (AttributeError ''get_details'')"
      and getter = "\<lambda>s. Raise (AttributeError ''get_details'') :: string value_and_units option result"
      and err = "AttributeError ''get_details''" and self = ?self
      and set_value = "\<lambda>(v :: string option) (s :: string option). (Return (), v)"
      and setter = "\<lambda>(v :: (string \<times> string option) option) (s :: string option). (Return (), s)"
      and constructor = "\<lambda>v u. (v :: string, u)"
      and transform = None and s = "Some ''old''" and lg = "[]"
      and rest = "[\<lambda>(s, lg). (Return (), Some ''later'', lg)]"]
  note b = getter_exception_propagates[where
      get_value = "\<lambda>s. Raise (AttributeError ''get_min_angle'') :: string option result"
      and getter = "\<lambda>s. Raise (AttributeError ''get_min_angle'') :: string value_and_units option result"
      and err = "AttributeError ''get_min_angle''" and self = ?self
      and setter = "\<lambda>(v :: (string \<times> string option) option) (s :: (string \<times> string option) option). (Return (), v)"
      and constructor = "\<lambda>v u. (v :: string, u)" and units_arg = "Some ''degrees''"
      and transform' = None and s = "None" and lg = "[]"]
  show ?thesis
    using a b by simp
qed

section \<open>The site codes on reverse translation\<close>

text \<open>
  Claim C5. On reverse translation the deposition site and the last processing site are
  lower-cased and looked up in \<open>PROC_SITE_30_TO_19\<close>, whose keys are \<open>pdbe\<close>, \<open>rcsb\<close>
  and \<open>pdbj\<close>. A code whose lower-casing is a key is replaced by the table's legacy
  token. For every code outside the table the lookup raises \<open>KeyError\<close>: the site field
  is left as it was (no default is written), and the statements after the lookup do not
  run, so the error is the outcome of the translation of that entry.
\<close>

theorem site_code_lookup:
  "set (map fst PROC_SITE_30_TO_19) = {''pdbe'', ''rcsb'', ''pdbj''}
   \<and> (deposition sites_in = Some code \<and> lower code \<notin> set (map fst PROC_SITE_30_TO_19) \<longrightarrow>
        translate_3_0_to_1_9_sites sites_in dep = (Raise (KeyError (lower code)), dep)
        \<and> block (translate_3_0_to_1_9_sites sites_in # rest) dep
            = (Raise (KeyError (lower code)), dep))
   \<and> (deposition sites_in = Some d \<and> map_of PROC_SITE_30_TO_19 (lower d) = Some site
        \<and> last_processing sites_in = Some code
        \<and> lower code \<notin> set (map fst PROC_SITE_30_TO_19) \<longrightarrow>
        translate_3_0_to_1_9_sites sites_in dep
          = (Raise (KeyError (lower code)), dep\<lparr>depositionSite := Some site\<rparr>)
        \<and> block (translate_3_0_to_1_9_sites sites_in # rest) dep
            = (Raise (KeyError (lower code)), dep\<lparr>depositionSite := Some site\<rparr>))
   \<and> (deposition sites_in = Some d \<and> map_of PROC_SITE_30_TO_19 (lower d) = Some site
        \<and> last_processing sites_in = Some p
        \<and> map_of PROC_SITE_30_TO_19 (lower p) = Some site' \<longrightarrow>
        translate_3_0_to_1_9_sites sites_in dep
          = (Return (), dep\<lparr>depositionSite := Some site, processingSite := Some site'\<rparr>))"
proof -
  have none: "map_of PROC_SITE_30_TO_19 k = None" if "k \<notin> set (map fst PROC_SITE_30_TO_19)" for k
    using that by (simp add: map_of_eq_None_iff)
  have keys: "set (map fst PROC_SITE_30_TO_19) = {''pdbe'', ''rcsb'', ''pdbj''}"
    by (auto simp: PROC_SITE_30_TO_19_def)
  show ?thesis
    using none[of "lower code"] keys
    by (auto simp: translate_3_0_to_1_9_sites_def lower_method_def getitem_def)
qed

theorem site_code_lookup_witness:
  "translate_3_0_to_1_9_sites \<lparr>deposition = Some ''EBI'', last_processing = None\<rparr>
       \<lparr>depositionSite = None, processingSite = None\<rparr>
     = (Raise (KeyError ''ebi''), \<lparr>depositionSite = None, processingSite = None\<rparr>)
   \<and> block [translate_3_0_to_1_9_sites \<lparr>deposition = Some ''EBI'', last_processing = None\<rparr>,
             (\<lambda>dep. (Return (), dep\<lparr>processingSite := Some ''PDBe''\<rparr>))]
       \<lparr>depositionSite = None, processingSite = None\<rparr>
     = (Raise (KeyError ''ebi''), \<lparr>depositionSite = None, processingSite = None\<rparr>)
   \<and> translate_3_0_to_1_9_sites \<lparr>deposition = Some ''PDBE'', last_processing = Some ''WWPDB''\<rparr>
       \<lparr>depositionSite = None, processingSite = None\<rparr>
     = (Raise (KeyError ''wwpdb''), \<lparr>depositionSite = Some ''PDBe'', processingSite = None\<rparr>)
   \<and> translate_3_0_to_1_9_sites \<lparr>deposition = Some ''RCSB'', last_processing = Some ''PDBj''\<rparr>
       \<lparr>depositionSite = None, processingSite = None\<rparr>
     = (Return (), \<lparr>depositionSite = Some ''RCSB'', processingSite = Some ''PDBj''\<rparr>)"
proof -
  let ?dep = "\<lparr>depositionSite = None, processingSite = None\<rparr>"
  have l: "lower ''EBI'' = ''ebi''" "lower ''PDBE'' = ''pdbe''" "lower ''WWPDB'' = ''wwpdb''"
    "lower ''RCSB'' = ''rcsb''" "lower ''PDBj'' = ''pdbj''"
    by (simp_all add: char_defs)
  have c1: "translate_3_0_to_1_9_sites \<lparr>deposition = Some ''EBI'', last_processing = None\<rparr> ?dep
              = (Raise (KeyError ''ebi''), ?dep)
            \<and> block [translate_3_0_to_1_9_sites \<lparr>deposition = Some ''EBI'', last_processing = None\<rparr>,
                      (\<lambda>dep. (Return (), dep\<lparr>processingSite := Some ''PDBe''\<rparr>))] ?dep
              = (Raise (KeyError ''ebi''), ?dep)"
    using site_code_lookup[where sites_in = "\<lparr>deposition = Some ''EBI'', last_processing = None\<rparr>"
        and code = "''EBI''" and dep = ?dep
        and rest = "[\<lambda>dep. (Return (), dep\<lparr>processingSite := Some ''PDBe''\<rparr>)]"]
    by (simp add: l PROC_SITE_30_TO_19_def)
  have c2: "translate_3_0_to_1_9_sites \<lparr>deposition = Some ''PDBE'', last_processing = Some ''WWPDB''\<rparr> ?dep
              = (Raise (KeyError ''wwpdb''), \<lparr>depositionSite = Some ''PDBe'', processingSite = None\<rparr>)"
    using site_code_lookup[where
        sites_in = "\<lparr>deposition = Some ''PDBE'', last_processing = Some ''WWPDB''\<rparr>"
        and code = "''WWPDB''" and d = "''PDBE''" and site = "''PDBe''" and dep = ?dep]
    by (simp add: l PROC_SITE_30_TO_19_def)
  have c3: "translate_3_0_to_1_9_sites \<lparr>deposition = Some ''RCSB'', last_processing = Some ''PDBj''\<rparr> ?dep
              = (Return (), \<lparr>depositionSite = Some ''RCSB'', processingSite = Some ''PDBj''\<rparr>)"
    using site_code_lookup[where
        sites_in = "\<lparr>deposition = Some ''RCSB'', last_processing = Some ''PDBj''\<rparr>"
        and d = "''RCSB''" and site = "''RCSB''" and p = "''PDBj''" and site' = "''PDBj''"
        and dep = ?dep]
    by (simp add: l PROC_SITE_30_TO_19_def)
  show ?thesis
    using c1 c2 c3 by simp
qed

section \<open>Chains of fitted models\<close>

lemma PDB_CHAIN_PAT_match_chain_nonempty:
  assumes "PDB_CHAIN_PAT_match s = Some (code, sep, ch)"
  shows "ch \<noteq> []"
  using assms
  by (auto simp: PDB_CHAIN_PAT_match_def split: list.splits if_splits)

lemma separators_not_alnum: "x \<in> set separators \<Longrightarrow> \<not> is_alnum x"
  by (auto simp: separators_def char_defs)

text \<open>
  The pattern on a string made of a code, an optional separator, a chain of letters and
  digits, and a rest that does not go on with a letter or digit.
\<close>

lemma PDB_CHAIN_PAT_match_parts:
  assumes code: "is_digit a" "is_alnum b" "is_alnum c" "is_alnum d"
    and sep: "sep = [] \<or> (\<exists>x\<in>set separators. sep = [x])"
    and ch: "ch \<noteq> []" "\<forall>x\<in>set ch. is_alnum x"
    and rest: "rest = [] \<or> \<not> is_alnum (hd rest)"
  shows "PDB_CHAIN_PAT_match ([a, b, c, d] @ sep @ ch @ rest) = Some ([a, b, c, d], sep, ch)"
proof -
  have tw: "takeWhile is_alnum (ch @ rest) = ch"
    by (rule takeWhile_run[OF ch(2) rest])
  from ch(1) obtain y ys where ys: "ch = y # ys"
    by (cases ch) auto
  with ch(2) have y: "is_alnum y" by simp
  from sep show ?thesis
  proof
    assume "sep = []"
    moreover have "y \<notin> set separators"
      using y separators_not_alnum by blast
    moreover have "takeWhile is_alnum (y # ys @ rest) = y # ys"
      using tw ys by simp
    ultimately show ?thesis
      using code ys by (simp add: PDB_CHAIN_PAT_match_def del: takeWhile.simps)
  next
    assume "\<exists>x\<in>set separators. sep = [x]"
    then obtain x where x: "x \<in> set separators" "sep = [x]" by blast
    with code tw ch(1) show ?thesis
      by (simp add: PDB_CHAIN_PAT_match_def)
  qed
qed

lemma map_chain_Constants:
  "map_chain Constants p_in ch_in =
     Return (case PDB_CHAIN_PAT_match ch_in of
               Some (code, sep, ch) \<Rightarrow>
                 (if code = p_in then new_chainType\<lparr>chain_id := Some ch\<rparr> else new_chainType, True)
             | None \<Rightarrow> (new_chainType\<lparr>chain_id := Some (remove_commas ch_in)\<rparr>, False))"
proof (cases "PDB_CHAIN_PAT_match ch_in")
  case None
  then show ?thesis
    by (simp add: map_chain_def const_PDB_CHAIN_PAT_def)
next
  case (Some g)
  obtain code sep ch where g: "g = (code, sep, ch)" by (cases g)
  with Some have "ch \<noteq> []" by (simp add: PDB_CHAIN_PAT_match_chain_nonempty)
  with Some g show ?thesis
    by (simp add: map_chain_def const_PDB_CHAIN_PAT_def)
qed

text \<open>
  The loop over the chain strings for one PDB code, for a chain object that has no
  content when nothing is set and has content when a non-empty chain id is set.
\<close>

lemma map_chains_Constants:
  assumes h0: "\<not> hasContent new_chainType"
    and h1: "\<forall>v. v \<noteq> [] \<longrightarrow> hasContent (new_chainType\<lparr>chain_id := Some v\<rparr>)"
  shows "map_chains hasContent Constants p_in chains_in (pdb_model, given)
     = Return (pdb_model\<lparr>chain := chain pdb_model @ concat (map (\<lambda>ch_in.
                   case PDB_CHAIN_PAT_match ch_in of
                     Some (code, sep, ch) \<Rightarrow>
                       (if code = p_in then [new_chainType\<lparr>chain_id := Some ch\<rparr>] else [])
                   | None \<Rightarrow>
                       (if hasContent (new_chainType\<lparr>chain_id := Some (remove_commas ch_in)\<rparr>)
                        then [new_chainType\<lparr>chain_id := Some (remove_commas ch_in)\<rparr>]
                        else [])) chains_in)\<rparr>,
               given \<or> (\<exists>ch_in\<in>set chains_in. PDB_CHAIN_PAT_match ch_in \<noteq> None))"
proof (induction chains_in arbitrary: pdb_model given)
  case Nil
  show ?case by simp
next
  case (Cons ch_in chains_in)
  show ?case
  proof (cases "PDB_CHAIN_PAT_match ch_in")
    case None
    then show ?thesis
      by (simp add: map_chain_Constants Cons.IH)
  next
    case (Some g)
    obtain code sep ch where g: "g = (code, sep, ch)" by (cases g)
    with Some have ne: "ch \<noteq> []" by (simp add: PDB_CHAIN_PAT_match_chain_nonempty)
    with h1 have hc: "hasContent (new_chainType\<lparr>chain_id := Some ch\<rparr>)" by simp
    from Some g h0 hc show ?thesis
      by (simp add: map_chain_Constants Cons.IH)
  qed
qed

lemma map_pdb_entries_Constants:
  assumes h0: "\<not> hasContent new_chainType"
    and h1: "\<forall>v. v \<noteq> [] \<longrightarrow> hasContent (new_chainType\<lparr>chain_id := Some v\<rparr>)"
  shows "map_pdb_entries hasContent Constants pdb_in chains_in (models, given)
     = Return (models @ map (\<lambda>p_in.
                 \<lparr>access_code = Some p_in,
                  chain = concat (map (\<lambda>ch_in.
                   case PDB_CHAIN_PAT_match ch_in of
                     Some (code, sep, ch) \<Rightarrow>
                       (if code = p_in then [new_chainType\<lparr>chain_id := Some ch\<rparr>] else [])
                   | None \<Rightarrow>
                       (if hasContent (new_chainType\<lparr>chain_id := Some (remove_commas ch_in)\<rparr>)
                        then [new_chainType\<lparr>chain_id := Some (remove_commas ch_in)\<rparr>]
                        else [])) chains_in)\<rparr>) pdb_in,
               given \<or> (pdb_in \<noteq> [] \<and> (\<exists>ch_in\<in>set chains_in. PDB_CHAIN_PAT_match ch_in \<noteq> None)))"
proof (induction pdb_in arbitrary: models given)
  case Nil
  show ?case by simp
next
  case (Cons p_in pdb_in)
  show ?case
    by (auto simp: map_chains_Constants[OF h0 h1] Cons.IH new_initial_modelType_def)
qed

lemma translate_pdbEntryIdList_log:
  "length pdb_in > 0 \<Longrightarrow>
     snd (snd (translate_pdbEntryIdList self hasContent const pdb_in chains_in lg)) = lg"
  by (simp add: translate_pdbEntryIdList_def)

text \<open>
  Claim C7, as the source has it, where \<open>const\<close> is bound to the class \<open>Constants\<close>. The
  chain string \<open>1ABC_A\<close> is split into the code \<open>1ABC\<close>, the separator and the chain
  \<open>A\<close>, and so is every string made of a code, an optional separator and a chain. For a
  chain object whose \<open>hasContent_\<close> is false when nothing is set and true when a
  non-empty chain id is set: with PDB codes declared, there is one initial model for each
  code, in their order, and its chains are, in the order of the chain strings, a chain
  with the chain part as its id for each string that matches the pattern with this code,
  nothing for a string that matches with another code (no chain id is set and no chain is
  added), and for a string that does not match a chain with the string less its commas
  as its id (when the chain object has content); the flag says whether some chain string
  matched. These statements log nothing: the chain of a mismatched code is dropped
  without a warning. With chain strings but no PDB code, the one model takes its code
  and its first chain from the first chain string, the other chain strings are added as
  they are, and the warning of level 1 is handed to \<open>warn\<close>. With neither, there is no
  model.
\<close>

theorem pdb_chain_parsing:
  assumes "\<not> hasContent new_chainType"
    and "\<forall>v. v \<noteq> [] \<longrightarrow> hasContent (new_chainType\<lparr>chain_id := Some v\<rparr>)"
  shows
  "PDB_CHAIN_PAT_match ''1ABC_A'' = Some (''1ABC'', ''_'', ''A'')
   \<and> (is_digit a \<and> is_alnum b \<and> is_alnum c \<and> is_alnum d
        \<and> (sep' = [] \<or> (\<exists>x\<in>set separators. sep' = [x]))
        \<and> ch' \<noteq> [] \<and> (\<forall>x\<in>set ch'. is_alnum x) \<and> (rest = [] \<or> \<not> is_alnum (hd rest)) \<longrightarrow>
      PDB_CHAIN_PAT_match ([a, b, c, d] @ sep' @ ch' @ rest) = Some ([a, b, c, d], sep', ch'))
   \<and> (PDB_CHAIN_PAT_match ch_in = Some (code, sep, ch) \<and> code = p_in \<longrightarrow>
        translate_pdbEntryIdList self hasContent Constants [p_in] [ch_in] lg
          = (Return ([\<lparr>access_code = Some p_in, chain = [new_chainType\<lparr>chain_id := Some ch\<rparr>]\<rparr>],
                     True), Constants, lg))
   \<and> (PDB_CHAIN_PAT_match ch_in = Some (code, sep, ch) \<and> code \<noteq> p_in \<longrightarrow>
        translate_pdbEntryIdList self hasContent Constants [p_in] [ch_in] lg
          = (Return ([\<lparr>access_code = Some p_in, chain = []\<rparr>], True), Constants, lg))
   \<and> (PDB_CHAIN_PAT_match ch_in = None \<and> remove_commas ch_in \<noteq> [] \<longrightarrow>
        translate_pdbEntryIdList self hasContent Constants [p_in] [ch_in] lg
          = (Return ([\<lparr>access_code = Some p_in,
                        chain = [new_chainType\<lparr>chain_id := Some (remove_commas ch_in)\<rparr>]\<rparr>],
                     False), Constants, lg))
   \<and> (pdb_in \<noteq> [] \<longrightarrow>
        translate_pdbEntryIdList self hasContent Constants pdb_in chains_in lg
          = (Return (map (\<lambda>p_in.
                 \<lparr>access_code = Some p_in,
                  chain = concat (map (\<lambda>ch_in.
                   case PDB_CHAIN_PAT_match ch_in of
                     Some (code, sep, ch) \<Rightarrow>
                       (if code = p_in then [new_chainType\<lparr>chain_id := Some ch\<rparr>] else [])
                   | None \<Rightarrow>
                       (if hasContent (new_chainType\<lparr>chain_id := Some (remove_commas ch_in)\<rparr>)
                        then [new_chainType\<lparr>chain_id := Some (remove_commas ch_in)\<rparr>]
                        else [])) chains_in)\<rparr>) pdb_in,
               \<exists>ch_in\<in>set chains_in. PDB_CHAIN_PAT_match ch_in \<noteq> None),
             Constants, lg))
   \<and> (fst (translate_pdbEntryIdList self hasContent Constants [] (ch_in # others) lg)
          = Return ([\<lparr>access_code =
                        Some (case PDB_CHAIN_PAT_match ch_in of
                                Some (code, sep, ch) \<Rightarrow> code
                              | None \<Rightarrow> ch_in),
                      chain =
                        new_chainType\<lparr>id_attr :=
                          Some (case PDB_CHAIN_PAT_match ch_in of
                                  Some (code, sep, ch) \<Rightarrow> ch
                                | None \<Rightarrow> ch_in)\<rparr>
                        # map (\<lambda>c. new_chainType\<lparr>id_attr := Some c\<rparr>) others\<rparr>], False)
      \<and> snd (snd (translate_pdbEntryIdList self hasContent Constants [] (ch_in # others) lg))
          = warn self 1 Chain_ids_without_pdb_id lg)
   \<and> translate_pdbEntryIdList self hasContent Constants [] [] lg
        = (Return ([], False), Constants, lg)
   \<and> (length pdb_in > 0 \<longrightarrow>
        snd (snd (translate_pdbEntryIdList self hasContent const pdb_in chains_in lg)) = lg)"
  (is "?EX \<and> ?PAT \<and> ?EQ \<and> ?NEQ \<and> ?NOMATCH \<and> ?ALL \<and> ?NOPDB \<and> ?NONE \<and> ?LOG")
proof -
  note all = map_pdb_entries_Constants[OF assms, of _ _ "[]" False]
  have EX: ?EX
    by (simp add: PDB_CHAIN_PAT_match_def separators_def char_defs)
  have PAT: ?PAT
    using PDB_CHAIN_PAT_match_parts[of a b c d sep' ch' rest] by blast
  have ALL: ?ALL
    by (simp add: translate_pdbEntryIdList_def all del: map_pdb_entries.simps)
  have ne: "PDB_CHAIN_PAT_match ch_in = Some (code, sep, ch) \<Longrightarrow> ch \<noteq> []"
    by (rule PDB_CHAIN_PAT_match_chain_nonempty)
  note one = map_pdb_entries_Constants[OF assms, of "[p_in]" "[ch_in]" "[]" False]
  have EQ: ?EQ
    using one by (simp add: translate_pdbEntryIdList_def del: map_pdb_entries.simps)
  have NEQ: ?NEQ
    using one by (simp add: translate_pdbEntryIdList_def del: map_pdb_entries.simps)
  have NOMATCH: ?NOMATCH
    using one assms(2) by (simp add: translate_pdbEntryIdList_def del: map_pdb_entries.simps)
  have NOPDB: ?NOPDB
    by (cases "PDB_CHAIN_PAT_match ch_in")
      (auto simp: translate_pdbEntryIdList_def const_PDB_CHAIN_PAT_def
        new_initial_modelType_def Let_def)
  have NONE: ?NONE
    by (simp add: translate_pdbEntryIdList_def)
  have LOG: ?LOG
    using translate_pdbEntryIdList_log[of pdb_in self hasContent const chains_in lg] by blast
  show ?thesis
    by (intro conjI EX PAT EQ NEQ NOMATCH ALL NOPDB NONE LOG)
qed

text \<open>
  The witness, for a chain object that has content when its chain id or its id is set:
  the codes \<open>1ABC\<close> and \<open>2XYZ\<close> with the chain strings \<open>1ABC_A\<close>, \<open>2XYZ:B\<close>,
  \<open>1ABCC\<close> and \<open>D,E\<close>.
\<close>

theorem pdb_chain_parsing_witness:
  "translate_pdbEntryIdList init (\<lambda>c. chain_id c \<noteq> None \<or> id_attr c \<noteq> None) Constants
       [''1ABC'', ''2XYZ''] [''1ABC_A'', ''2XYZ:B'', ''1ABCC'', ''D,E''] []
     = (Return ([\<lparr>access_code = Some ''1ABC'',
                  chain = [\<lparr>chain_id = Some ''A'', id_attr = None\<rparr>,
                           \<lparr>chain_id = Some ''C'', id_attr = None\<rparr>,
                           \<lparr>chain_id = Some ''DE'', id_attr = None\<rparr>]\<rparr>,
                 \<lparr>access_code = Some ''2XYZ'',
                  chain = [\<lparr>chain_id = Some ''B'', id_attr = None\<rparr>,
                           \<lparr>chain_id = Some ''DE'', id_attr = None\<rparr>]\<rparr>], True),
        Constants, [])
   \<and> translate_pdbEntryIdList init (\<lambda>c. chain_id c \<noteq> None \<or> id_attr c \<noteq> None) Constants
       [''1ABC''] [''2XYZ:A''] []
     = (Return ([\<lparr>access_code = Some ''1ABC'', chain = []\<rparr>], True), Constants, [])"
proof -
  let ?hc = "\<lambda>c. chain_id c \<noteq> None \<or> id_attr c \<noteq> None"
  have h0: "\<not> ?hc new_chainType"
    by (simp add: new_chainType_def)
  have h1: "\<forall>v. v \<noteq> [] \<longrightarrow> ?hc (new_chainType\<lparr>chain_id := Some v\<rparr>)"
    by simp
  have m: "PDB_CHAIN_PAT_match ''1ABC_A'' = Some (''1ABC'', ''_'', ''A'')"
    "PDB_CHAIN_PAT_match ''2XYZ:B'' = Some (''2XYZ'', '':'', ''B'')"
    "PDB_CHAIN_PAT_match ''1ABCC'' = Some (''1ABC'', '''', ''C'')"
    "PDB_CHAIN_PAT_match ''D,E'' = None"
    "PDB_CHAIN_PAT_match ''2XYZ:A'' = Some (''2XYZ'', '':'', ''A'')"
    "remove_commas ''D,E'' = ''DE''"
    by (simp_all add: PDB_CHAIN_PAT_match_def separators_def remove_commas_def char_defs)
  note spec = pdb_chain_parsing[OF h0 h1]
  note general = spec[where pdb_in = "[''1ABC'', ''2XYZ'']"
      and chains_in = "[''1ABC_A'', ''2XYZ:B'', ''1ABCC'', ''D,E'']" and self = init and lg = "[]",
      THEN conjunct2, THEN conjunct2, THEN conjunct2, THEN conjunct2, THEN conjunct2,
      THEN conjunct1, THEN mp]
  note mismatch = spec[where ch_in = "''2XYZ:A''" and code = "''2XYZ''" and sep = "'':''"
      and ch = "''A''" and p_in = "''1ABC''" and self = init and lg = "[]",
      THEN conjunct2, THEN conjunct2, THEN conjunct2, THEN conjunct1, THEN mp]
  have w1: "translate_pdbEntryIdList init ?hc Constants
       [''1ABC'', ''2XYZ''] [''1ABC_A'', ''2XYZ:B'', ''1ABCC'', ''D,E''] []
     = (Return ([\<lparr>access_code = Some ''1ABC'',
                  chain = [\<lparr>chain_id = Some ''A'', id_attr = None\<rparr>,
                           \<lparr>chain_id = Some ''C'', id_attr = None\<rparr>,
                           \<lparr>chain_id = Some ''DE'', id_attr = None\<rparr>]\<rparr>,
                 \<lparr>access_code = Some ''2XYZ'',
                  chain = [\<lparr>chain_id = Some ''B'', id_attr = None\<rparr>,
                           \<lparr>chain_id = Some ''DE'', id_attr = None\<rparr>]\<rparr>], True),
        Constants, [])"
    using general by (simp add: m new_chainType_def)
  have w2: "translate_pdbEntryIdList init ?hc Constants [''1ABC''] [''2XYZ:A''] []
     = (Return ([\<lparr>access_code = Some ''1ABC'', chain = []\<rparr>], True), Constants, [])"
    using mismatch by (simp add: m)
  show ?thesis
    by (intro conjI w1 w2)
qed

text \<open>
  The claim as the specification states it has the mismatched chain dropped with a logged
  warning. At the highest warning level, a chain string whose code \<open>2XYZ\<close> differs from
  the declared code \<open>1ABC\<close> is dropped and the log stays empty.
\<close>

theorem pdb_chain_mismatch_not_logged:
  "translate_pdbEntryIdList (init\<lparr>warning_level := 3\<rparr>)
       (\<lambda>c. chain_id c \<noteq> None \<or> id_attr c \<noteq> None) Constants [''1ABC''] [''2XYZ_A''] []
     = (Return ([\<lparr>access_code = Some ''1ABC'', chain = []\<rparr>], True), Constants, [])"
  by (simp add: translate_pdbEntryIdList_def map_chain_def const_PDB_CHAIN_PAT_def
      PDB_CHAIN_PAT_match_def separators_def new_chainType_def new_initial_modelType_def
      char_defs)

text \<open>
  After the path without a PDB code has run over a second chain string, \<open>const\<close> is that
  string, and the statements that read the pattern or the renaming table from it raise.
\<close>

lemma const_rebound_by_chain_loop:
  "fst (snd (translate_pdbEntryIdList self hasContent Constants [] [''A'', ''B''] lg))
     = Chain_string ''B''
   \<and> fst (translate_pdbEntryIdList self hasContent (Chain_string ''B'') [''1ABC''] [''1ABC_A''] lg)
     = Raise (AttributeError ''PDB_CHAIN_PAT'')"
  by (simp add: translate_pdbEntryIdList_def const_PDB_CHAIN_PAT_def map_chain_def
      PDB_CHAIN_PAT_match_def Let_def split: prod.splits)

section \<open>The technique tag\<close>

lemmas EMM_defs = EMM_EC_def EMM_HEL_def EMM_SP_def EMM_STOM_def EMM_TOM_def

lemma specimen_preparations_none:
  assumes "\<And>i. specimen_preparation c sp m i = Return None"
  shows "specimen_preparations c sp m idx acc = Return acc"
  by (induction idx arbitrary: acc) (simp_all add: assms)

lemma specimen_preparations_some:
  assumes "\<And>i. specimen_preparation c sp m i = Return (Some v)"
  shows "specimen_preparations c sp m idx acc = Return (acc @ replicate (length idx) v)"
  by (induction idx arbitrary: acc) (simp_all add: assms replicate_app_Cons_same)

lemma microscopies_all:
  assumes "\<And>i img. microscopy c m i img = Return v"
  shows "microscopies c m i imgs acc = Return (acc @ replicate (length imgs) v)"
  by (induction imgs arbitrary: i acc) (simp_all add: assms replicate_app_Cons_same)

lemma image_processings_none:
  assumes "\<And>r. image_processing_of c m r = Return None"
  shows "image_processings c m recs acc = Return acc"
  by (induction recs arbitrary: acc) (simp_all add: assms)

lemma image_processings_some:
  assumes "\<And>r. image_processing_of c m r = Return (Some v)"
  shows "image_processings c m recs acc = Return (acc @ replicate (length recs) v)"
  by (induction recs arbitrary: acc) (simp_all add: assms replicate_app_Cons_same)

text \<open>A tag that is none of the five takes no branch of any chain.\<close>

lemma unknown_tag_chains:
  assumes "m \<notin> {Some ''singleParticle'', Some ''helical'', Some ''tomography'',
                 Some ''subtomogramAveraging'', Some ''twoDCrystal''}"
  shows "struct_det_method m = None"
    and "specimen_preparation c sp m i = Return None"
    and "microscopy c m i img = Raise (UnboundLocalError ''mic'')"
    and "image_processing_of c m r = Return None"
  using assms
  by (simp_all add: struct_det_method_def specimen_preparation_def microscopy_def
      image_processing_of_def EMM_defs)

lemma unknown_tag_raises:
  assumes "processing xml_in = Some p"
    and "proc_method p \<notin> {Some ''singleParticle'', Some ''helical'', Some ''tomography'',
                 Some ''subtomogramAveraging'', Some ''twoDCrystal''}"
    and "imaging xml_in \<noteq> []"
  shows "translate_structure_determination c xml_in = Raise (UnboundLocalError ''mic'')"
proof -
  from assms(3) obtain img rest where imgs: "imaging xml_in = img # rest"
    by (cases "imaging xml_in") auto
  have m: "em_method_in (Some p) = proc_method p"
    by (simp add: em_method_in_def)
  have preps: "specimen_preparations c sp (proc_method p) idx [] = Return []" for sp idx
    by (rule specimen_preparations_none) (rule unknown_tag_chains(2)[OF assms(2)])
  have mics: "microscopies c (proc_method p) i (img # rest) [] = Raise (UnboundLocalError ''mic'')"
    for i
    by (simp add: unknown_tag_chains(3)[OF assms(2)])
  show ?thesis
    by (simp add: translate_structure_determination_def Let_def assms(1) m preps imgs mics
        del: microscopies.simps)
qed

lemma unknown_tag_sets_nothing:
  assumes "processing xml_in = Some p"
    and "proc_method p \<notin> {Some ''singleParticle'', Some ''helical'', Some ''tomography'',
                 Some ''subtomogramAveraging'', Some ''twoDCrystal''}"
    and "imaging xml_in = []"
  shows "translate_structure_determination c xml_in
           = Return \<lparr>sd_method = None, specimen_preparation_list = [], microscopy_list = [],
                     image_processing = []\<rparr>"
proof -
  have m: "em_method_in (Some p) = proc_method p"
    by (simp add: em_method_in_def)
  have preps: "specimen_preparations c sp (proc_method p) idx [] = Return []" for sp idx
    by (rule specimen_preparations_none) (rule unknown_tag_chains(2)[OF assms(2)])
  have procs: "image_processings c (proc_method p) recs [] = Return []" for recs
    by (rule image_processings_none) (rule unknown_tag_chains(4)[OF assms(2)])
  show ?thesis
    by (simp add: translate_structure_determination_def Let_def m preps procs assms(1,3)
        unknown_tag_chains(1)[OF assms(2)])
qed

text \<open>The helical tag: the first reconstruction ends the translation.\<close>

lemma helical_image_processing:
  "image_processings c (Some ''helical'') (r # recs) []
     = Raise (TypeError ''set_final_reconstruction() got an unexpected keyword argument helical'')"
  by (simp add: image_processing_of_def set_helical_add_on_def and_then_def EMM_defs)

lemma helical_never_returns:
  assumes "processing xml_in = Some p" "proc_method p = Some ''helical''" "reconstruction p \<noteq> []"
  shows "\<exists>err. translate_structure_determination c xml_in = Raise err"
proof -
  from assms(3) obtain r recs where recs: "reconstruction p = r # recs"
    by (cases "reconstruction p") auto
  have m: "em_method_in (Some p) = Some ''helical''"
    by (simp add: em_method_in_def assms(2))
  show ?thesis
    by (simp add: translate_structure_determination_def Let_def m assms(1) recs
        helical_image_processing del: image_processings.simps split: result.splits)
qed

text \<open>The callees that return whatever they are called on.\<close>

lemma and_then_Return: "and_then (Return u) k = k"
  by (simp add: and_then_def)

lemma helical_TypeError:
  assumes "processing xml_in = Some p" "proc_method p = Some ''helical''" "reconstruction p \<noteq> []"
    and "\<And>i. set_base_preparation c i = Return ()"
    and "\<And>i img. set_base_microscopy c i img = Return ()"
  shows "translate_structure_determination c xml_in
     = Raise (TypeError ''set_final_reconstruction() got an unexpected keyword argument helical'')"
proof -
  from assms(3) obtain r recs where recs: "reconstruction p = r # recs"
    by (cases "reconstruction p") auto
  have m: "em_method_in (Some p) = Some ''helical''"
    by (simp add: em_method_in_def assms(2))
  have prep: "specimen_preparation c sp (Some ''helical'') i
      = Return (Some \<lparr>class_name = ''helical_preparation_type'',
                       original_tagname = ''helical_preparation''\<rparr>)" for sp i
    by (simp add: specimen_preparation_def EMM_defs assms(4) and_then_Return)
  have mic: "microscopy c (Some ''helical'') i img
      = Return \<lparr>class_name = ''helical_microscopy_type'',
                 original_tagname = ''helical_microscopy''\<rparr>" for i img
    by (simp add: microscopy_def EMM_defs assms(5) and_then_Return)
  show ?thesis
    by (simp add: translate_structure_determination_def Let_def m assms(1) recs
        specimen_preparations_some[OF prep] microscopies_all[OF mic]
        helical_image_processing del: image_processings.simps)
qed

text \<open>
  The four other tags and the entry with no processing element, when the callees return
  and, for \<open>twoDCrystal\<close>, the experiment has a specimen preparation.
\<close>

lemma dispatch_returns:
  assumes m: "em_method_in (processing xml_in) = m"
    and prep: "\<And>i. specimen_preparation c (has_specimenPreparation xml_in) m i = Return (Some vp)"
    and mic: "\<And>i img. microscopy c m i img = Return vm"
    and procs: "(case processing xml_in of
                   None \<Rightarrow> Return []
                 | Some p \<Rightarrow> image_processings c m (reconstruction p) []) = Return ps"
    and sd: "struct_det_method m = sd"
  shows "translate_structure_determination c xml_in
     = Return \<lparr>sd_method = sd,
               specimen_preparation_list = replicate (max 1 (vitrification_count xml_in)) vp,
               microscopy_list = replicate (length (imaging xml_in)) vm,
               image_processing = ps\<rparr>"
  unfolding translate_structure_determination_def Let_def m
    specimen_preparations_some[OF prep] microscopies_all[OF mic] procs sd
  by simp

text \<open>
  Claim C9 on the source. A processing element whose tag is none of \<open>singleParticle\<close>,
  \<open>helical\<close>, \<open>tomography\<close>, \<open>subtomogramAveraging\<close> and \<open>twoDCrystal\<close>, or that
  has no tag, does not default to single particle: with an imaging element the translation
  of the entry ends with \<open>UnboundLocalError\<close>, whatever the callees do, and with none
  it returns a structure determination with no method and no record. The tag \<open>helical\<close>
  with a reconstruction never returns: when the callees before it return, the call of
  \<open>set_final_reconstruction\<close> raises \<open>TypeError\<close>. When the callees return: an entry
  with no processing element is translated as single particle, and each of the tags
  \<open>singleParticle\<close>, \<open>tomography\<close>, \<open>subtomogramAveraging\<close> and \<open>twoDCrystal\<close>
  (the last with a specimen preparation; its method becomes \<open>electronCrystallography\<close>)
  sets its method and constructs its variant of every preparation, microscopy and
  image-processing record, as \<open>helical\<close> does with no reconstruction.
\<close>

theorem technique_tag_dispatch:
  "(processing xml_in = Some p
      \<and> proc_method p \<notin> {Some ''singleParticle'', Some ''helical'', Some ''tomography'',
                           Some ''subtomogramAveraging'', Some ''twoDCrystal''}
      \<and> imaging xml_in \<noteq> [] \<longrightarrow>
    translate_structure_determination c xml_in = Raise (UnboundLocalError ''mic''))
   \<and> (processing xml_in = Some p
      \<and> proc_method p \<notin> {Some ''singleParticle'', Some ''helical'', Some ''tomography'',
                           Some ''subtomogramAveraging'', Some ''twoDCrystal''}
      \<and> imaging xml_in = [] \<longrightarrow>
    translate_structure_determination c xml_in
      = Return \<lparr>sd_method = None, specimen_preparation_list = [], microscopy_list = [],
                image_processing = []\<rparr>)
   \<and> (processing xml_in = Some p \<and> proc_method p = Some ''helical'' \<and> reconstruction p \<noteq> [] \<longrightarrow>
    (\<exists>err. translate_structure_determination c xml_in = Raise err))
   \<and> ((\<forall>i. set_base_preparation c i = Return ())
       \<and> (\<forall>i img. set_base_microscopy c i img = Return ())
       \<and> (\<forall>img. set_tilt_series c img = Return ())
       \<and> (\<forall>r. set_single_particle_add_on c r = Return ())
       \<and> (\<forall>r. set_tomography_add_on c r = Return ())
       \<and> (\<forall>r. set_subtomography_add_on c r = Return ())
       \<and> (\<forall>r. set_crystallography_add_on c r = Return ()) \<longrightarrow>
     (processing xml_in = Some p \<and> proc_method p = Some ''helical'' \<and> reconstruction p \<noteq> [] \<longrightarrow>
        translate_structure_determination c xml_in
          = Raise (TypeError
              ''set_final_reconstruction() got an unexpected keyword argument helical''))
     \<and> (processing xml_in = Some p \<and> proc_method p = Some ''helical'' \<and> reconstruction p = [] \<longrightarrow>
        translate_structure_determination c xml_in
          = Return \<lparr>sd_method = Some ''helical'',
              specimen_preparation_list = replicate (max 1 (vitrification_count xml_in))
                \<lparr>class_name = ''helical_preparation_type'',
                 original_tagname = ''helical_preparation''\<rparr>,
              microscopy_list = replicate (length (imaging xml_in))
                \<lparr>class_name = ''helical_microscopy_type'',
                 original_tagname = ''helical_microscopy''\<rparr>,
              image_processing = []\<rparr>)
     \<and> (processing xml_in = None \<longrightarrow>
        translate_structure_determination c xml_in
          = Return \<lparr>sd_method = Some ''singleParticle'',
              specimen_preparation_list = replicate (max 1 (vitrification_count xml_in))
                \<lparr>class_name = ''single_particle_preparation_type'',
                 original_tagname = ''single_particle_preparation''\<rparr>,
              microscopy_list = replicate (length (imaging xml_in))
                \<lparr>class_name = ''single_particle_microscopy_type'',
                 original_tagname = ''single_particle_microscopy''\<rparr>,
              image_processing = []\<rparr>)
     \<and> (processing xml_in = Some p \<and> proc_method p = Some ''singleParticle'' \<longrightarrow>
        translate_structure_determination c xml_in
          = Return \<lparr>sd_method = Some ''singleParticle'',
              specimen_preparation_list = replicate (max 1 (vitrification_count xml_in))
                \<lparr>class_name = ''single_particle_preparation_type'',
                 original_tagname = ''single_particle_preparation''\<rparr>,
              microscopy_list = replicate (length (imaging xml_in))
                \<lparr>class_name = ''single_particle_microscopy_type'',
                 original_tagname = ''single_particle_microscopy''\<rparr>,
              image_processing = replicate (length (reconstruction p))
                \<lparr>class_name = ''singleparticle_processing_type'',
                 original_tagname = ''singleparticle_processing''\<rparr>\<rparr>)
     \<and> (processing xml_in = Some p \<and> proc_method p = Some ''tomography'' \<longrightarrow>
        translate_structure_determination c xml_in
          = Return \<lparr>sd_method = Some ''tomography'',
              specimen_preparation_list = replicate (max 1 (vitrification_count xml_in))
                \<lparr>class_name = ''tomography_preparation_type'',
                 original_tagname = ''tomography_preparation''\<rparr>,
              microscopy_list = replicate (length (imaging xml_in))
                \<lparr>class_name = ''tomography_microscopy_type'',
                 original_tagname = ''tomography_microscopy''\<rparr>,
              image_processing = replicate (length (reconstruction p))
                \<lparr>class_name = ''tomography_processing_type'',
                 original_tagname = ''tomography_processing''\<rparr>\<rparr>)
     \<and> (processing xml_in = Some p \<and> proc_method p = Some ''subtomogramAveraging'' \<longrightarrow>
        translate_structure_determination c xml_in
          = Return \<lparr>sd_method = Some ''subtomogramAveraging'',
              specimen_preparation_list = replicate (max 1 (vitrification_count xml_in))
                \<lparr>class_name = ''subtomogram_averaging_preparation_type'',
                 original_tagname = ''subtomogram_averaging_preparation''\<rparr>,
              microscopy_list = replicate (length (imaging xml_in))
                \<lparr>class_name = ''tomography_microscopy_type'',
                 original_tagname = ''subtomogram_averaging_microscopy''\<rparr>,
              image_processing = replicate (length (reconstruction p))
                \<lparr>class_name = ''subtomogram_averaging_processing_type'',
                 original_tagname = ''subtomogram_averaging_processing''\<rparr>\<rparr>)
     \<and> (processing xml_in = Some p \<and> proc_method p = Some ''twoDCrystal''
          \<and> has_specimenPreparation xml_in \<longrightarrow>
        translate_structure_determination c xml_in
          = Return \<lparr>sd_method = Some ''electronCrystallography'',
              specimen_preparation_list = replicate (max 1 (vitrification_count xml_in))
                \<lparr>class_name = ''crystallography_preparation_type'',
                 original_tagname = ''crystallography_preparation''\<rparr>,
              microscopy_list = replicate (length (imaging xml_in))
                \<lparr>class_name = ''crystallography_microscopy_type'',
                 original_tagname = ''crystallography_microscopy''\<rparr>,
              image_processing = replicate (length (reconstruction p))
                \<lparr>class_name = ''crystallography_processing_type'',
                 original_tagname = ''crystallography_processing''\<rparr>\<rparr>))"
  (is "?U1 \<and> ?U2 \<and> ?H \<and> (?callees \<longrightarrow> ?HT \<and> ?HE \<and> ?N \<and> ?SP \<and> ?TOM \<and> ?STOM \<and> ?EC)")
proof -
  have U1: ?U1
    using unknown_tag_raises[of xml_in p c] by blast
  have U2: ?U2
    using unknown_tag_sets_nothing[of xml_in p c] by blast
  have H: ?H
    using helical_never_returns[of xml_in p c] by blast
  have R: "?HT \<and> ?HE \<and> ?N \<and> ?SP \<and> ?TOM \<and> ?STOM \<and> ?EC" if ret: ?callees
  proof -
    from ret have c1: "\<And>i. set_base_preparation c i = Return ()"
      and c2: "\<And>i img. set_base_microscopy c i img = Return ()"
      and c3: "\<And>img. set_tilt_series c img = Return ()"
      and c4: "\<And>r. set_single_particle_add_on c r = Return ()"
      and c5: "\<And>r. set_tomography_add_on c r = Return ()"
      and c6: "\<And>r. set_subtomography_add_on c r = Return ()"
      and c7: "\<And>r. set_crystallography_add_on c r = Return ()"
      by blast+
    note cs = c1 c2 c3 c4 c5 c6 c7 and_then_Return
    have HT: ?HT
      using helical_TypeError[of xml_in p c, OF _ _ _ c1 c2] by blast
    have HE: ?HE
    proof (intro impI, elim conjE)
      assume h: "processing xml_in = Some p" "proc_method p = Some ''helical''" "reconstruction p = []"
      have m: "em_method_in (processing xml_in) = Some ''helical''"
        by (simp add: em_method_in_def h)
      have prep: "specimen_preparation c (has_specimenPreparation xml_in) (Some ''helical'') i
          = Return (Some \<lparr>class_name = ''helical_preparation_type'',
                           original_tagname = ''helical_preparation''\<rparr>)" for i
        by (simp add: specimen_preparation_def EMM_defs cs h)
      have mic: "microscopy c (Some ''helical'') i img
          = Return \<lparr>class_name = ''helical_microscopy_type'',
                     original_tagname = ''helical_microscopy''\<rparr>" for i img
        by (simp add: microscopy_def EMM_defs cs)
      have procs: "(case processing xml_in of
                   None \<Rightarrow> Return []
                 | Some p \<Rightarrow> image_processings c (Some ''helical'') (reconstruction p) [])
              = Return []"
        by (simp add: h)
      have sd: "struct_det_method (Some ''helical'') = Some ''helical''"
        by (simp add: struct_det_method_def EMM_defs)
      show "translate_structure_determination c xml_in
          = Return \<lparr>sd_method = Some ''helical'',
              specimen_preparation_list = replicate (max 1 (vitrification_count xml_in))
                \<lparr>class_name = ''helical_preparation_type'',
                 original_tagname = ''helical_preparation''\<rparr>,
              microscopy_list = replicate (length (imaging xml_in))
                \<lparr>class_name = ''helical_microscopy_type'',
                 original_tagname = ''helical_microscopy''\<rparr>,
              image_processing = []\<rparr>"
        by (rule dispatch_returns[OF m prep mic procs sd])
    qed
    have N: ?N
    proof
      assume h: "processing xml_in = None"
      have m: "em_method_in (processing xml_in) = Some ''singleParticle''"
        by (simp add: em_method_in_def h EMM_defs)
      have prep: "specimen_preparation c (has_specimenPreparation xml_in) (Some ''singleParticle'') i
          = Return (Some \<lparr>class_name = ''single_particle_preparation_type'',
                           original_tagname = ''single_particle_preparation''\<rparr>)" for i
        by (simp add: specimen_preparation_def EMM_defs cs h)
      have mic: "microscopy c (Some ''singleParticle'') i img
          = Return \<lparr>class_name = ''single_particle_microscopy_type'',
                     original_tagname = ''single_particle_microscopy''\<rparr>" for i img
        by (simp add: microscopy_def EMM_defs cs)
      have procs: "(case processing xml_in of
                   None \<Rightarrow> Return []
                 | Some p \<Rightarrow> image_processings c (Some ''singleParticle'') (reconstruction p) [])
              = Return []"
        by (simp add: h)
      have sd: "struct_det_method (Some ''singleParticle'') = Some ''singleParticle''"
        by (simp add: struct_det_method_def EMM_defs)
      show "translate_structure_determination c xml_in
          = Return \<lparr>sd_method = Some ''singleParticle'',
              specimen_preparation_list = replicate (max 1 (vitrification_count xml_in))
                \<lparr>class_name = ''single_particle_preparation_type'',
                 original_tagname = ''single_particle_preparation''\<rparr>,
              microscopy_list = replicate (length (imaging xml_in))
                \<lparr>class_name = ''single_particle_microscopy_type'',
                 original_tagname = ''single_particle_microscopy''\<rparr>,
              image_processing = []\<rparr>"
        by (rule dispatch_returns[OF m prep mic procs sd])
    qed
    have SP: ?SP
    proof (intro impI, elim conjE)
      assume h: "processing xml_in = Some p" "proc_method p = Some ''singleParticle''"
      have m: "em_method_in (processing xml_in) = Some ''singleParticle''"
        by (simp add: em_method_in_def h)
      have prep: "specimen_preparation c (has_specimenPreparation xml_in) (Some ''singleParticle'') i
          = Return (Some \<lparr>class_name = ''single_particle_preparation_type'',
                           original_tagname = ''single_particle_preparation''\<rparr>)" for i
        by (simp add: specimen_preparation_def EMM_defs cs h)
      have mic: "microscopy c (Some ''singleParticle'') i img
          = Return \<lparr>class_name = ''single_particle_microscopy_type'',
                     original_tagname = ''single_particle_microscopy''\<rparr>" for i img
        by (simp add: microscopy_def EMM_defs cs)
      have ip: "image_processing_of c (Some ''singleParticle'') r
          = Return (Some \<lparr>class_name = ''singleparticle_processing_type'',
                           original_tagname = ''singleparticle_processing''\<rparr>)" for r
        by (simp add: image_processing_of_def EMM_defs cs)
      have procs: "(case processing xml_in of
                   None \<Rightarrow> Return []
                 | Some p \<Rightarrow> image_processings c (Some ''singleParticle'') (reconstruction p) [])
              = Return (replicate (length (reconstruction p))
                  \<lparr>class_name = ''singleparticle_processing_type'',
                   original_tagname = ''singleparticle_processing''\<rparr>)"
        by (simp add: h image_processings_some[OF ip])
      have sd: "struct_det_method (Some ''singleParticle'') = Some ''singleParticle''"
        by (simp add: struct_det_method_def EMM_defs)
      show "translate_structure_determination c xml_in
          = Return \<lparr>sd_method = Some ''singleParticle'',
              specimen_preparation_list = replicate (max 1 (vitrification_count xml_in))
                \<lparr>class_name = ''single_particle_preparation_type'',
                 original_tagname = ''single_particle_preparation''\<rparr>,
              microscopy_list = replicate (length (imaging xml_in))
                \<lparr>class_name = ''single_particle_microscopy_type'',
                 original_tagname = ''single_particle_microscopy''\<rparr>,
              image_processing = replicate (length (reconstruction p))
                \<lparr>class_name = ''singleparticle_processing_type'',
                 original_tagname = ''singleparticle_processing''\<rparr>\<rparr>"
        by (rule dispatch_returns[OF m prep mic procs sd])
    qed
    have TOM: ?TOM
    proof (intro impI, elim conjE)
      assume h: "processing xml_in = Some p" "proc_method p = Some ''tomography''"
      have m: "em_method_in (processing xml_in) = Some ''tomography''"
        by (simp add: em_method_in_def h)
      have prep: "specimen_preparation c (has_specimenPreparation xml_in) (Some ''tomography'') i
          = Return (Some \<lparr>class_name = ''tomography_preparation_type'',
                           original_tagname = ''tomography_preparation''\<rparr>)" for i
        by (simp add: specimen_preparation_def EMM_defs cs h)
      have mic: "microscopy c (Some ''tomography'') i img
          = Return \<lparr>class_name = ''tomography_microscopy_type'',
                     original_tagname = ''tomography_microscopy''\<rparr>" for i img
        by (simp add: microscopy_def EMM_defs cs)
      have ip: "image_processing_of c (Some ''tomography'') r
          = Return (Some \<lparr>class_name = ''tomography_processing_type'',
                           original_tagname = ''tomography_processing''\<rparr>)" for r
        by (simp add: image_processing_of_def EMM_defs cs)
      have procs: "(case processing xml_in of
                   None \<Rightarrow> Return []
                 | Some p \<Rightarrow> image_processings c (Some ''tomography'') (reconstruction p) [])
              = Return (replicate (length (reconstruction p))
                  \<lparr>class_name = ''tomography_processing_type'',
                   original_tagname = ''tomography_processing''\<rparr>)"
        by (simp add: h image_processings_some[OF ip])
      have sd: "struct_det_method (Some ''tomography'') = Some ''tomography''"
        by (simp add: struct_det_method_def EMM_defs)
      show "translate_structure_determination c xml_in
          = Return \<lparr>sd_method = Some ''tomography'',
              specimen_preparation_list = replicate (max 1 (vitrification_count xml_in))
                \<lparr>class_name = ''tomography_preparation_type'',
                 original_tagname = ''tomography_preparation''\<rparr>,
              microscopy_list = replicate (length (imaging xml_in))
                \<lparr>class_name = ''tomography_microscopy_type'',
                 original_tagname = ''tomography_microscopy''\<rparr>,
              image_processing = replicate (length (reconstruction p))
                \<lparr>class_name = ''tomography_processing_type'',
                 original_tagname = ''tomography_processing''\<rparr>\<rparr>"
        by (rule dispatch_returns[OF m prep mic procs sd])
    qed
    have STOM: ?STOM
    proof (intro impI, elim conjE)
      assume h: "processing xml_in = Some p" "proc_method p = Some ''subtomogramAveraging''"
      have m: "em_method_in (processing xml_in) = Some ''subtomogramAveraging''"
        by (simp add: em_method_in_def h)
      have prep: "specimen_preparation c (has_specimenPreparation xml_in) (Some ''subtomogramAveraging'') i
          = Return (Some \<lparr>class_name = ''subtomogram_averaging_preparation_type'',
                           original_tagname = ''subtomogram_averaging_preparation''\<rparr>)" for i
        by (simp add: specimen_preparation_def EMM_defs cs h)
      have mic: "microscopy c (Some ''subtomogramAveraging'') i img
          = Return \<lparr>class_name = ''tomography_microscopy_type'',
                     original_tagname = ''subtomogram_averaging_microscopy''\<rparr>" for i img
        by (simp add: microscopy_def EMM_defs cs)
      have ip: "image_processing_of c (Some ''subtomogramAveraging'') r
          = Return (Some \<lparr>class_name = ''subtomogram_averaging_processing_type'',
                           original_tagname = ''subtomogram_averaging_processing''\<rparr>)" for r
        by (simp add: image_processing_of_def EMM_defs cs)
      have procs: "(case processing xml_in of
                   None \<Rightarrow> Return []
                 | Some p \<Rightarrow> image_processings c (Some ''subtomogramAveraging'') (reconstruction p) [])
              = Return (replicate (length (reconstruction p))
                  \<lparr>class_name = ''subtomogram_averaging_processing_type'',
                   original_tagname = ''subtomogram_averaging_processing''\<rparr>)"
        by (simp add: h image_processings_some[OF ip])
      have sd: "struct_det_method (Some ''subtomogramAveraging'') = Some ''subtomogramAveraging''"
        by (simp add: struct_det_method_def EMM_defs)
      show "translate_structure_determination c xml_in
          = Return \<lparr>sd_method = Some ''subtomogramAveraging'',
              specimen_preparation_list = replicate (max 1 (vitrification_count xml_in))
                \<lparr>class_name = ''subtomogram_averaging_preparation_type'',
                 original_tagname = ''subtomogram_averaging_preparation''\<rparr>,
              microscopy_list = replicate (length (imaging xml_in))
                \<lparr>class_name = ''tomography_microscopy_type'',
                 original_tagname = ''subtomogram_averaging_microscopy''\<rparr>,
              image_processing = replicate (length (reconstruction p))
                \<lparr>class_name = ''subtomogram_averaging_processing_type'',
                 original_tagname = ''subtomogram_averaging_processing''\<rparr>\<rparr>"
        by (rule dispatch_returns[OF m prep mic procs sd])
    qed
    have EC: ?EC
    proof (intro impI, elim conjE)
      assume h: "processing xml_in = Some p" "proc_method p = Some ''twoDCrystal''" "has_specimenPreparation xml_in"
      have m: "em_method_in (processing xml_in) = Some ''twoDCrystal''"
        by (simp add: em_method_in_def h)
      have prep: "specimen_preparation c (has_specimenPreparation xml_in) (Some ''twoDCrystal'') i
          = Return (Some \<lparr>class_name = ''crystallography_preparation_type'',
                           original_tagname = ''crystallography_preparation''\<rparr>)" for i
        by (simp add: specimen_preparation_def EMM_defs cs h)
      have mic: "microscopy c (Some ''twoDCrystal'') i img
          = Return \<lparr>class_name = ''crystallography_microscopy_type'',
                     original_tagname = ''crystallography_microscopy''\<rparr>" for i img
        by (simp add: microscopy_def EMM_defs cs)
      have ip: "image_processing_of c (Some ''twoDCrystal'') r
          = Return (Some \<lparr>class_name = ''crystallography_processing_type'',
                           original_tagname = ''crystallography_processing''\<rparr>)" for r
        by (simp add: image_processing_of_def EMM_defs cs)
      have procs: "(case processing xml_in of
                   None \<Rightarrow> Return []
                 | Some p \<Rightarrow> image_processings c (Some ''twoDCrystal'') (reconstruction p) [])
              = Return (replicate (length (reconstruction p))
                  \<lparr>class_name = ''crystallography_processing_type'',
                   original_tagname = ''crystallography_processing''\<rparr>)"
        by (simp add: h image_processings_some[OF ip])
      have sd: "struct_det_method (Some ''twoDCrystal'') = Some ''electronCrystallography''"
        by (simp add: struct_det_method_def EMM_defs)
      show "translate_structure_determination c xml_in
          = Return \<lparr>sd_method = Some ''electronCrystallography'',
              specimen_preparation_list = replicate (max 1 (vitrification_count xml_in))
                \<lparr>class_name = ''crystallography_preparation_type'',
                 original_tagname = ''crystallography_preparation''\<rparr>,
              microscopy_list = replicate (length (imaging xml_in))
                \<lparr>class_name = ''crystallography_microscopy_type'',
                 original_tagname = ''crystallography_microscopy''\<rparr>,
              image_processing = replicate (length (reconstruction p))
                \<lparr>class_name = ''crystallography_processing_type'',
                 original_tagname = ''crystallography_processing''\<rparr>\<rparr>"
        by (rule dispatch_returns[OF m prep mic procs sd])
    qed
    show ?thesis
      by (intro conjI HT HE N SP TOM STOM EC)
  qed
  then have RR: "?callees \<longrightarrow> ?HT \<and> ?HE \<and> ?N \<and> ?SP \<and> ?TOM \<and> ?STOM \<and> ?EC"
    by (rule impI)
  show ?thesis
    by (rule conjI[OF U1 conjI[OF U2 conjI[OF H RR]]])
qed

text \<open>
  The witness, with callees that return: a processing element tagged
  \<open>electronTomography\<close> and one imaging element; a processing element with no tag and no
  imaging element; the tag \<open>helical\<close> with one reconstruction; the tag \<open>tomography\<close>
  with two imaging elements and one reconstruction.
\<close>

theorem technique_tag_dispatch_witness:
  "translate_structure_determination
       \<lparr>set_base_preparation = \<lambda>i. Return (), set_base_microscopy = \<lambda>i img. Return (),
        set_tilt_series = \<lambda>img. Return (), set_single_particle_add_on = \<lambda>r. Return (),
        set_tomography_add_on = \<lambda>r. Return (), set_subtomography_add_on = \<lambda>r. Return (),
        set_crystallography_add_on = \<lambda>r. Return ()\<rparr>
       \<lparr>processing = Some \<lparr>proc_method = Some ''electronTomography'', reconstruction = [()]\<rparr>,
        has_specimenPreparation = True, vitrification_count = 1, imaging = [()]\<rparr>
     = Raise (UnboundLocalError ''mic'')
   \<and> translate_structure_determination
       \<lparr>set_base_preparation = \<lambda>i. Return (), set_base_microscopy = \<lambda>i img. Return (),
        set_tilt_series = \<lambda>img. Return (), set_single_particle_add_on = \<lambda>r. Return (),
        set_tomography_add_on = \<lambda>r. Return (), set_subtomography_add_on = \<lambda>r. Return (),
        set_crystallography_add_on = \<lambda>r. Return ()\<rparr>
       \<lparr>processing = Some \<lparr>proc_method = None, reconstruction = [()]\<rparr>,
        has_specimenPreparation = True, vitrification_count = 1, imaging = [] :: unit list\<rparr>
     = Return \<lparr>sd_method = None, specimen_preparation_list = [], microscopy_list = [],
               image_processing = []\<rparr>
   \<and> translate_structure_determination
       \<lparr>set_base_preparation = \<lambda>i. Return (), set_base_microscopy = \<lambda>i img. Return (),
        set_tilt_series = \<lambda>img. Return (), set_single_particle_add_on = \<lambda>r. Return (),
        set_tomography_add_on = \<lambda>r. Return (), set_subtomography_add_on = \<lambda>r. Return (),
        set_crystallography_add_on = \<lambda>r. Return ()\<rparr>
       \<lparr>processing = Some \<lparr>proc_method = Some ''helical'', reconstruction = [()]\<rparr>,
        has_specimenPreparation = True, vitrification_count = 1, imaging = [()]\<rparr>
     = Raise (TypeError ''set_final_reconstruction() got an unexpected keyword argument helical'')
   \<and> translate_structure_determination
       \<lparr>set_base_preparation = \<lambda>i. Return (), set_base_microscopy = \<lambda>i img. Return (),
        set_tilt_series = \<lambda>img. Return (), set_single_particle_add_on = \<lambda>r. Return (),
        set_tomography_add_on = \<lambda>r. Return (), set_subtomography_add_on = \<lambda>r. Return (),
        set_crystallography_add_on = \<lambda>r. Return ()\<rparr>
       \<lparr>processing = Some \<lparr>proc_method = Some ''tomography'', reconstruction = [()]\<rparr>,
        has_specimenPreparation = False, vitrification_count = 0, imaging = [(), ()]\<rparr>
     = Return \<lparr>sd_method = Some ''tomography'',
         specimen_preparation_list =
           [\<lparr>class_name = ''tomography_preparation_type'',
             original_tagname = ''tomography_preparation''\<rparr>],
         microscopy_list =
           [\<lparr>class_name = ''tomography_microscopy_type'',
             original_tagname = ''tomography_microscopy''\<rparr>,
            \<lparr>class_name = ''tomography_microscopy_type'',
             original_tagname = ''tomography_microscopy''\<rparr>],
         image_processing =
           [\<lparr>class_name = ''tomography_processing_type'',
             original_tagname = ''tomography_processing''\<rparr>]\<rparr>"
proof -
  let ?c = "\<lparr>set_base_preparation = \<lambda>i. Return (), set_base_microscopy = \<lambda>i img. Return (),
        set_tilt_series = \<lambda>img. Return (), set_single_particle_add_on = \<lambda>r. Return (),
        set_tomography_add_on = \<lambda>r. Return (), set_subtomography_add_on = \<lambda>r. Return (),
        set_crystallography_add_on = \<lambda>r. Return ()\<rparr> :: (unit, unit) callees"
  let ?p1 = "\<lparr>proc_method = Some ''electronTomography'', reconstruction = [()]\<rparr>"
  let ?p2 = "\<lparr>proc_method = None, reconstruction = [()]\<rparr>"
  let ?p3 = "\<lparr>proc_method = Some ''helical'', reconstruction = [()]\<rparr>"
  let ?p4 = "\<lparr>proc_method = Some ''tomography'', reconstruction = [()]\<rparr>"
  let ?x1 = "\<lparr>processing = Some ?p1, has_specimenPreparation = True, vitrification_count = 1,
             imaging = [()]\<rparr>"
  let ?x2 = "\<lparr>processing = Some ?p2, has_specimenPreparation = True, vitrification_count = 1,
             imaging = [] :: unit list\<rparr>"
  let ?x3 = "\<lparr>processing = Some ?p3, has_specimenPreparation = True, vitrification_count = 1,
             imaging = [()]\<rparr>"
  let ?x4 = "\<lparr>processing = Some ?p4, has_specimenPreparation = False, vitrification_count = 0,
             imaging = [(), ()]\<rparr>"
  have ret: "(\<forall>i. set_base_preparation ?c i = Return ())
       \<and> (\<forall>i img. set_base_microscopy ?c i img = Return ())
       \<and> (\<forall>img. set_tilt_series ?c img = Return ())
       \<and> (\<forall>r. set_single_particle_add_on ?c r = Return ())
       \<and> (\<forall>r. set_tomography_add_on ?c r = Return ())
       \<and> (\<forall>r. set_subtomography_add_on ?c r = Return ())
       \<and> (\<forall>r. set_crystallography_add_on ?c r = Return ())"
    by simp
  have h1: "processing ?x1 = Some ?p1
      \<and> proc_method ?p1 \<notin> {Some ''singleParticle'', Some ''helical'', Some ''tomography'',
                           Some ''subtomogramAveraging'', Some ''twoDCrystal''}
      \<and> imaging ?x1 \<noteq> []"
    by simp
  have h2: "processing ?x2 = Some ?p2
      \<and> proc_method ?p2 \<notin> {Some ''singleParticle'', Some ''helical'', Some ''tomography'',
                           Some ''subtomogramAveraging'', Some ''twoDCrystal''}
      \<and> imaging ?x2 = []"
    by simp
  have h3: "processing ?x3 = Some ?p3 \<and> proc_method ?p3 = Some ''helical''
      \<and> reconstruction ?p3 \<noteq> []"
    by simp
  have h4: "processing ?x4 = Some ?p4 \<and> proc_method ?p4 = Some ''tomography''"
    by simp
  note w1 = technique_tag_dispatch[where c = ?c and xml_in = ?x1 and p = ?p1,
      THEN conjunct1, THEN mp, OF h1]
  note w2 = technique_tag_dispatch[where c = ?c and xml_in = ?x2 and p = ?p2,
      THEN conjunct2, THEN conjunct1, THEN mp, OF h2]
  note w3 = technique_tag_dispatch[where c = ?c and xml_in = ?x3 and p = ?p3,
      THEN conjunct2, THEN conjunct2, THEN conjunct2, THEN mp, OF ret,
      THEN conjunct1, THEN mp, OF h3]
  note w4 = technique_tag_dispatch[where c = ?c and xml_in = ?x4 and p = ?p4,
      THEN conjunct2, THEN conjunct2, THEN conjunct2, THEN mp, OF ret,
      THEN conjunct2, THEN conjunct2, THEN conjunct2, THEN conjunct2, THEN conjunct1,
      THEN mp, OF h4]
  have w4': "translate_structure_determination ?c ?x4
     = Return \<lparr>sd_method = Some ''tomography'',
         specimen_preparation_list =
           [\<lparr>class_name = ''tomography_preparation_type'',
             original_tagname = ''tomography_preparation''\<rparr>],
         microscopy_list =
           [\<lparr>class_name = ''tomography_microscopy_type'',
             original_tagname = ''tomography_microscopy''\<rparr>,
            \<lparr>class_name = ''tomography_microscopy_type'',
             original_tagname = ''tomography_microscopy''\<rparr>],
         image_processing =
           [\<lparr>class_name = ''tomography_processing_type'',
             original_tagname = ''tomography_processing''\<rparr>]\<rparr>"
    unfolding w4 by simp
  show ?thesis
    by (intro conjI w1 w2 w3 w4')
qed

section \<open>Fields with a closed enumeration\<close>

lemma copy_field_value: "fst (snd (copy_field self source (None, []))) = source"
  by (cases source) (simp_all add: copy_field_def check_set_def)

lemma upper_char_idem: "upper_char (upper_char c) = upper_char c"
  by (simp add: upper_char_def upper_letters_def lower_letters_def)

lemma upper_idem: "upper (upper s) = upper s"
  by (simp add: upper_def upper_char_idem)

lemma upper_in_allowed:
  assumes "upper d \<in> set allowed"
  shows "upper d \<in> set (map upper allowed)"
proof -
  from assms have "upper (upper d) \<in> upper ` set allowed" by (rule imageI)
  then show ?thesis by (simp add: upper_idem)
qed

lemma film_or_detector_model_roundtrip:
  "roundtrip self \<Longrightarrow> film_or_detector_model self (Some d) = Some d"
  by (simp add: film_or_detector_model_def)

lemma film_or_detector_model_allowed:
  "\<not> roundtrip self \<Longrightarrow> upper d \<in> set allowed_detectors \<Longrightarrow>
     film_or_detector_model self (Some d) = Some (upper d)"
  by (simp add: film_or_detector_model_def)

lemma film_or_detector_model_other:
  assumes "\<not> roundtrip self" "upper d \<notin> set (map upper allowed_detectors)"
  shows "film_or_detector_model self (Some d) = Some ''OTHER''"
proof -
  from assms(2) have "upper d \<notin> set allowed_detectors"
    using upper_in_allowed by blast
  with assms(1) show ?thesis
    by (simp add: film_or_detector_model_def)
qed

lemma cryogen_name_cases:
  "roundtrip self \<Longrightarrow> cryogen_name self (Some c) = Some c"
  "\<not> roundtrip self \<Longrightarrow> c \<in> set allowed_cryo_names \<Longrightarrow> cryogen_name self (Some c) = Some c"
  "\<not> roundtrip self \<Longrightarrow> c \<notin> set allowed_cryo_names \<Longrightarrow>
     cryogen_name self (Some c) = Some ''OTHER''"
  by (simp_all add: cryogen_name_def)

lemma refinement_protocol_roundtrip:
  "roundtrip self \<Longrightarrow>
     refinement_protocol_of self Constants (Some r)
       = Return (Some (if r = ''flexible'' then ''FLEXIBLE FIT''
                       else if r = ''rigid body'' then ''RIGID BODY FIT'' else r))"
  by (simp add: refinement_protocol_of_def const_FITTING_19_to_30_def FITTING_19_to_30_def)

lemma refinement_protocol_plain:
  assumes "\<not> roundtrip self" "r \<noteq> ''flexible''" "r \<noteq> ''rigid body''"
  shows "r \<in> set allowed_rec_protocols \<Longrightarrow>
           refinement_protocol_of self Constants (Some r) = Return (Some r)"
    and "r \<notin> set allowed_rec_protocols \<Longrightarrow>
           refinement_protocol_of self Constants (Some r) = Return (Some ''OTHER'')"
  using assms
  by (simp_all add: refinement_protocol_of_def const_FITTING_19_to_30_def FITTING_19_to_30_def
      copy_field_value)

lemma resolution_method_cases:
  "m \<in> set allowed_res_methods \<Longrightarrow> resolution_method self (Some m) = Some m"
  "m \<notin> set allowed_res_methods \<Longrightarrow> resolution_method self (Some m) = Some ''OTHER''"
  by (auto simp: resolution_method_def copy_field_value)

lemma specimen_holder_model_copied: "specimen_holder_model self h = h"
  by (simp add: specimen_holder_model_def copy_field_value)

text \<open>
  Claim C3, as the source has it; for the fitting protocol, where \<open>const\<close> is bound to
  the class \<open>Constants\<close>. In round-trip mode the detector model and the cryogen
  name pass through unchanged, and the fitting protocol passes through after the renaming
  of \<open>FITTING_19_to_30\<close> (\<open>flexible\<close> becomes \<open>FLEXIBLE FIT\<close>, \<open>rigid body\<close> becomes
  \<open>RIGID BODY FIT\<close>, any other value is unchanged). In non-round-trip mode: a detector
  model whose upper-casing is in the allow-list is emitted upper-cased, and one that
  equals no allow-list entry even ignoring case becomes \<open>OTHER\<close>; a cryogen name, a
  fitting protocol that needs no renaming and a resolution method are compared as they
  are, an allow-listed value passes through and any other becomes \<open>OTHER\<close>. The
  specimen-holder model is copied unchanged in both modes. (What the resolution method
  becomes in round-trip mode is not part of this statement.)
\<close>

theorem enumeration_clamping:
  "(roundtrip self \<longrightarrow>
      film_or_detector_model self (Some d) = Some d
      \<and> cryogen_name self (Some c) = Some c
      \<and> refinement_protocol_of self Constants (Some r)
          = Return (Some (if r = ''flexible'' then ''FLEXIBLE FIT''
                          else if r = ''rigid body'' then ''RIGID BODY FIT'' else r)))
   \<and> (\<not> roundtrip self \<longrightarrow>
        (upper d \<in> set allowed_detectors \<longrightarrow>
           film_or_detector_model self (Some d) = Some (upper d))
      \<and> (upper d \<notin> set (map upper allowed_detectors) \<longrightarrow>
           film_or_detector_model self (Some d) = Some ''OTHER'')
      \<and> (c \<in> set allowed_cryo_names \<longrightarrow> cryogen_name self (Some c) = Some c)
      \<and> (c \<notin> set allowed_cryo_names \<longrightarrow> cryogen_name self (Some c) = Some ''OTHER'')
      \<and> (r \<noteq> ''flexible'' \<and> r \<noteq> ''rigid body'' \<and> r \<in> set allowed_rec_protocols \<longrightarrow>
           refinement_protocol_of self Constants (Some r) = Return (Some r))
      \<and> (r \<noteq> ''flexible'' \<and> r \<noteq> ''rigid body'' \<and> r \<notin> set allowed_rec_protocols \<longrightarrow>
           refinement_protocol_of self Constants (Some r) = Return (Some ''OTHER''))
      \<and> (m \<in> set allowed_res_methods \<longrightarrow> resolution_method self (Some m) = Some m)
      \<and> (m \<notin> set allowed_res_methods \<longrightarrow> resolution_method self (Some m) = Some ''OTHER''))
   \<and> specimen_holder_model self h = h"
  using film_or_detector_model_roundtrip[of self d] film_or_detector_model_allowed[of self d]
    film_or_detector_model_other[of self d] cryogen_name_cases[of self c]
    refinement_protocol_roundtrip[of self r] refinement_protocol_plain[of self r]
    resolution_method_cases[of m self] specimen_holder_model_copied[of self h]
  by blast

theorem enumeration_clamping_witness:
  "film_or_detector_model (init\<lparr>roundtrip := True\<rparr>) (Some ''my own CCD'') = Some ''my own CCD''
   \<and> cryogen_name (init\<lparr>roundtrip := True\<rparr>) (Some ''ethane'') = Some ''ethane''
   \<and> refinement_protocol_of (init\<lparr>roundtrip := True\<rparr>) Constants (Some ''flexible'')
       = Return (Some ''FLEXIBLE FIT'')
   \<and> film_or_detector_model init (Some ''Kodak so-163 film'') = Some ''KODAK SO-163 FILM''
   \<and> film_or_detector_model init (Some ''my own CCD'') = Some ''OTHER''
   \<and> cryogen_name init (Some ''ETHANE'') = Some ''ETHANE''
   \<and> cryogen_name init (Some ''ARGON'') = Some ''OTHER''
   \<and> refinement_protocol_of init Constants (Some ''RIGID BODY FIT'') = Return (Some ''RIGID BODY FIT'')
   \<and> refinement_protocol_of init Constants (Some ''manual'') = Return (Some ''OTHER'')
   \<and> resolution_method init (Some ''FSC 0.5 CUT-OFF'') = Some ''FSC 0.5 CUT-OFF''
   \<and> resolution_method init (Some ''FSC 0.5'') = Some ''OTHER''
   \<and> specimen_holder_model init (Some ''HOMEMADE'') = Some ''HOMEMADE''"
proof -
  let ?rt = "init\<lparr>roundtrip := True\<rparr>"
  have rt: "roundtrip ?rt" and nrt: "\<not> roundtrip init"
    by (simp_all add: init_def)
  have u1: "upper ''Kodak so-163 film'' = ''KODAK SO-163 FILM''"
    by code_simp
  have d1: "upper ''Kodak so-163 film'' \<in> set allowed_detectors"
    by code_simp
  have d2: "upper ''my own CCD'' \<notin> set (map upper allowed_detectors)"
    by code_simp
  have c1: "''ETHANE'' \<in> set allowed_cryo_names" and c2: "''ARGON'' \<notin> set allowed_cryo_names"
    by (simp_all add: allowed_cryo_names_def)
  have r1: "''RIGID BODY FIT'' \<noteq> ''flexible'' \<and> ''RIGID BODY FIT'' \<noteq> ''rigid body''
              \<and> ''RIGID BODY FIT'' \<in> set allowed_rec_protocols"
    and r2: "''manual'' \<noteq> ''flexible'' \<and> ''manual'' \<noteq> ''rigid body''
              \<and> ''manual'' \<notin> set allowed_rec_protocols"
    by (simp_all add: allowed_rec_protocols_def)
  have m1: "''FSC 0.5 CUT-OFF'' \<in> set allowed_res_methods"
    and m2: "''FSC 0.5'' \<notin> set allowed_res_methods"
    by (simp_all add: allowed_res_methods_def)
  note a = enumeration_clamping[of ?rt "''my own CCD''" "''ethane''" "''flexible''",
      THEN conjunct1, THEN mp, OF rt]
  note b = enumeration_clamping[of init "''Kodak so-163 film''" "''ETHANE''" "''RIGID BODY FIT''"
      "''FSC 0.5 CUT-OFF''" "Some ''HOMEMADE''", THEN conjunct2]
  note b1 = b[THEN conjunct1, THEN mp, OF nrt]
  note e = enumeration_clamping[of init "''my own CCD''" "''ARGON''" "''manual''" "''FSC 0.5''",
      THEN conjunct2, THEN conjunct1, THEN mp, OF nrt]
  have a3: "refinement_protocol_of ?rt Constants (Some ''flexible'') = Return (Some ''FLEXIBLE FIT'')"
    using a[THEN conjunct2, THEN conjunct2] by simp
  note ws =
    a[THEN conjunct1] a[THEN conjunct2, THEN conjunct1] a3
    b1[THEN conjunct1, THEN mp, OF d1, unfolded u1]
    e[THEN conjunct2, THEN conjunct1, THEN mp, OF d2]
    b1[THEN conjunct2, THEN conjunct2, THEN conjunct1, THEN mp, OF c1]
    e[THEN conjunct2, THEN conjunct2, THEN conjunct2, THEN conjunct1, THEN mp, OF c2]
    b1[THEN conjunct2, THEN conjunct2, THEN conjunct2, THEN conjunct2, THEN conjunct1, THEN mp, OF r1]
    e[THEN conjunct2, THEN conjunct2, THEN conjunct2, THEN conjunct2, THEN conjunct2, THEN conjunct1, THEN mp, OF r2]
    b1[THEN conjunct2, THEN conjunct2, THEN conjunct2, THEN conjunct2, THEN conjunct2, THEN conjunct2, THEN conjunct1, THEN mp, OF m1]
    e[THEN conjunct2, THEN conjunct2, THEN conjunct2, THEN conjunct2, THEN conjunct2, THEN conjunct2, THEN conjunct2, THEN mp, OF m2]
    b[THEN conjunct2]
  show ?thesis
    by (intro conjI; (fact ws))
qed

text \<open>
  The claim as the specification states it, at five inputs. In non-round-trip mode a
  specimen-holder model is not clamped; in round-trip mode the fitting protocol
  \<open>flexible\<close> is renamed and the resolution method \<open>FSC 0.5\<close> is clamped; in
  non-round-trip mode the cryogen name \<open>ethane\<close> is clamped although its upper-casing is
  allow-listed, and the allow-listed detector \<open>FEI EAGLE (4k x 4k)\<close> is clamped.
\<close>

theorem enumeration_clamping_counterexample:
  "specimen_holder_model init (Some ''HOMEMADE'') = Some ''HOMEMADE''
   \<and> refinement_protocol_of (init\<lparr>roundtrip := True\<rparr>) Constants (Some ''flexible'')
       = Return (Some ''FLEXIBLE FIT'')
   \<and> resolution_method (init\<lparr>roundtrip := True\<rparr>) (Some ''FSC 0.5'') = Some ''OTHER''
   \<and> upper ''ethane'' \<in> set allowed_cryo_names
   \<and> cryogen_name init (Some ''ethane'') = Some ''OTHER''
   \<and> ''FEI EAGLE (4k x 4k)'' \<in> set allowed_detectors
   \<and> film_or_detector_model init (Some ''FEI EAGLE (4k x 4k)'') = Some ''OTHER''"
proof -
  have "specimen_holder_model init (Some ''HOMEMADE'') = Some ''HOMEMADE''"
    by (simp add: specimen_holder_model_def copy_field_def check_set_def)
  moreover have "refinement_protocol_of (init\<lparr>roundtrip := True\<rparr>) Constants (Some ''flexible'')
      = Return (Some ''FLEXIBLE FIT'')"
    by (simp add: refinement_protocol_of_def const_FITTING_19_to_30_def FITTING_19_to_30_def)
  moreover have "resolution_method (init\<lparr>roundtrip := True\<rparr>) (Some ''FSC 0.5'') = Some ''OTHER''"
    by (simp add: resolution_method_def allowed_res_methods_def)
  moreover have "upper ''ethane'' \<in> set allowed_cryo_names"
    by code_simp
  moreover have "cryogen_name init (Some ''ethane'') = Some ''OTHER''"
    by (simp add: cryogen_name_def init_def allowed_cryo_names_def)
  moreover have "''FEI EAGLE (4k x 4k)'' \<in> set allowed_detectors"
    by (simp add: allowed_detectors_def)
  moreover have "film_or_detector_model init (Some ''FEI EAGLE (4k x 4k)'') = Some ''OTHER''"
    by code_simp
  ultimately show ?thesis by blast
qed

text \<open>
  The fitting protocol where \<open>const\<close> is no longer the class: a fitting that lists the
  chains \<open>A\<close> and \<open>B\<close> and no PDB code rebinds \<open>const\<close>, and its refinement protocol
  is not translated: the translation of the entry ends with \<open>AttributeError\<close>.
\<close>

lemma fitting_after_chain_loop_raises:
  "refinement_protocol_of self (Chain_string s) (Some r) = Raise (AttributeError ''FITTING_19_to_30'')
   \<and> fst (translate_fitting self hasContent
            \<lparr>pdbEntryIdList = Some \<lparr>pdbEntryId = [], pdbChainId = [''A'', ''B'']\<rparr>,
             refProtocol = Some ''rigid body''\<rparr> (Constants, lg))
       = Raise (AttributeError ''FITTING_19_to_30'')"
  by (simp add: refinement_protocol_of_def const_FITTING_19_to_30_def translate_fitting_def
      translate_pdbEntryIdList_def const_PDB_CHAIN_PAT_def PDB_CHAIN_PAT_match_def Let_def
      split: prod.splits)

section \<open>Image acquisitions\<close>














text \<open>
  Image recordings that differ in whether they have digitization details: the key
  \<open>scanner\<close> is in the dictionary of the one that has them, with the value \<open>None\<close>
  when no scanner is given, and not in the dictionary of the other. Two such recordings
  with the same seven parameter values give two equal records.
\<close>

lemma acquisition_scanner_key_duplicates:
  "translate_imageAcquisition init some_member_set None
       [\<lparr>image_recording_list = Some
           [\<lparr>number_real_images = Some 10, digitization_details = None,
             od_range = None :: rat option, bits_per_pixel = None, details = None\<rparr>,
            \<lparr>number_real_images = Some 10,
             digitization_details = Some \<lparr>scanner = None, sampling_interval = None\<rparr>,
             od_range = None, bits_per_pixel = None, details = None\<rparr>]\<rparr>]
     = [\<lparr>numDigitalImages = Some 10, scanner_19 = None, samplingSize = None, odRange = None,
         URLRawData = None, quantBitNumber = None, details_19 = None\<rparr>,
        \<lparr>numDigitalImages = Some 10, scanner_19 = None, samplingSize = None, odRange = None,
         URLRawData = None, quantBitNumber = None, details_19 = None\<rparr>]"
  by (simp add: translate_imageAcquisition_def image_recordings_def acquisition_step_def
      add_imageAcquisition_def im_ac_of_def image_acquasition_def first_auxiliary_link_def
      init_def)

section \<open>Rounding to a double\<close>

lemma bitlength_bounds:
  "0 < n \<Longrightarrow> (2 :: int) ^ bitlength n \<le> 2 * n \<and> n < 2 ^ bitlength n"
proof (induction n rule: bitlength.induct)
  case (1 n)
  show ?case
  proof (cases "n div 2 = 0")
    case True
    with "1.prems" have "n = 1" by presburger
    then show ?thesis
      by (simp add: bitlength.simps[of 1] bitlength.simps[of 0])
  next
    case False
    with "1.prems" have pos: "0 < n div 2" by presburger
    from "1.prems" have "\<not> n \<le> 0" by simp
    from "1.IH"[OF this pos]
    have ih: "(2 :: int) ^ bitlength (n div 2) \<le> 2 * (n div 2)" "n div 2 < 2 ^ bitlength (n div 2)"
      by simp_all
    have b: "bitlength n = Suc (bitlength (n div 2))"
      using "1.prems" by (simp add: bitlength.simps[of n])
    from ih(1) have "(2 :: int) ^ bitlength n \<le> 2 * n"
      unfolding b by (simp; presburger)
    moreover from ih(2) have "n < 2 ^ bitlength n"
      unfolding b by (simp; presburger)
    ultimately show ?thesis by simp
  qed
qed

lemma pow2_mono: "a \<le> b \<Longrightarrow> pow2 a \<le> pow2 b"
  by (simp add: pow2_def power_int_increasing)

text \<open>\<open>binary_exponent\<close> is the exponent of the binade of a positive rational.\<close>

lemma binary_exponent_bracket:
  assumes "0 < x"
  shows "pow2 (binary_exponent x) \<le> x \<and> x < pow2 (binary_exponent x + 1)"
proof -
  obtain p q where pq: "quotient_of x = (p, q)" by (cases "quotient_of x")
  then have q: "0 < q" and x: "x = of_int p / of_int q"
    by (simp_all add: quotient_of_denom_pos quotient_of_div)
  from assms x q have p: "0 < p"
    by (simp add: zero_less_divide_iff)
  let ?bp = "bitlength p" and ?bq = "bitlength q"
  let ?k = "int ?bp - int ?bq"
  from bitlength_bounds[OF p] have p1: "(2 :: int) ^ ?bp \<le> 2 * p" and p2: "p < 2 ^ ?bp" by simp_all
  from bitlength_bounds[OF q] have q1: "(2 :: int) ^ ?bq \<le> 2 * q" and q2: "q < 2 ^ ?bq" by simp_all
  have "p * 2 ^ ?bq < 2 ^ ?bp * (2 * q)"
  proof -
    have "p * 2 ^ ?bq < 2 ^ ?bp * 2 ^ ?bq" using p2 by simp
    also have "\<dots> \<le> 2 ^ ?bp * (2 * q)" using q1 by simp
    finally show ?thesis .
  qed
  then have "(of_int (p * 2 ^ ?bq) :: rat) < of_int (2 ^ ?bp * (2 * q))"
    by (simp only: of_int_less_iff)
  then have "(of_int p :: rat) * 2 ^ ?bq < 2 * 2 ^ ?bp * of_int q"
    by (simp add: mult.assoc mult.left_commute)
  with q have upper: "x < 2 * 2 ^ ?bp / 2 ^ ?bq"
    unfolding x by (simp add: field_simps)
  have "2 ^ ?bp * q < (2 * p) * 2 ^ ?bq"
  proof -
    have "2 ^ ?bp * q < 2 ^ ?bp * 2 ^ ?bq" using q2 by simp
    also have "\<dots> \<le> (2 * p) * 2 ^ ?bq" using p1 by simp
    finally show ?thesis .
  qed
  then have "(of_int (2 ^ ?bp * q) :: rat) < of_int ((2 * p) * 2 ^ ?bq)"
    by (simp only: of_int_less_iff)
  then have "(2 :: rat) ^ ?bp * of_int q < 2 * of_int p * 2 ^ ?bq"
    by simp
  with q have lower: "2 ^ ?bp / (2 * 2 ^ ?bq) < x"
    unfolding x by (simp add: field_simps)
  have k1: "pow2 (?k + 1) = 2 * 2 ^ ?bp / 2 ^ ?bq"
    by (simp add: pow2_def power_int_add power_int_diff)
  have k0: "pow2 (?k - 1) = 2 ^ ?bp / (2 * 2 ^ ?bq)"
    by (simp add: pow2_def power_int_diff)
  have be: "binary_exponent x = (if pow2 ?k \<le> x then ?k else ?k - 1)"
    by (simp add: binary_exponent_def pq)
  show ?thesis
  proof (cases "pow2 ?k \<le> x")
    case True
    with be upper k1 show ?thesis by simp
  next
    case False
    with be lower k0 show ?thesis by simp
  qed
qed

lemma binary_exponent_unique:
  assumes "0 < x" "pow2 e \<le> x" "x < pow2 (e + 1)"
  shows "binary_exponent x = e"
proof -
  let ?b = "binary_exponent x"
  from binary_exponent_bracket[OF assms(1)]
  have b: "pow2 ?b \<le> x" "x < pow2 (?b + 1)" by simp_all
  have "\<not> ?b < e"
  proof
    assume "?b < e"
    then have "pow2 (?b + 1) \<le> pow2 e" by (intro pow2_mono) simp
    with b(2) assms(2) show False by simp
  qed
  moreover have "\<not> e < ?b"
  proof
    assume "e < ?b"
    then have "pow2 (e + 1) \<le> pow2 ?b" by (intro pow2_mono) simp
    with b(1) assms(3) show False by simp
  qed
  ultimately show ?thesis by simp
qed

lemma round_half_even_nearest:
  assumes "\<bar>y - of_int m\<bar> < 1 / 2"
  shows "round_half_even y = m"
proof (cases "of_int m \<le> y")
  case True
  with assms have "\<lfloor>y\<rfloor> = m" by linarith
  with assms True show ?thesis
    by (simp add: round_half_even_def Let_def)
next
  case False
  with assms have f: "\<lfloor>y\<rfloor> = m - 1" by linarith
  from False assms have "1 / 2 < y - of_int (m - 1)" by simp
  with f show ?thesis
    by (simp add: round_half_even_def Let_def)
qed

text \<open>
  A positive \<open>x\<close> in the binade of \<open>e\<close>, in the normal range, rounds to the multiple
  \<open>m\<close> of \<open>2^(e - 52)\<close> that is less than half a unit away.
\<close>

lemma round_to_double_nearest:
  assumes "0 < x" "pow2 e \<le> x" "x < pow2 (e + 1)" "- 1022 \<le> e"
    and "\<bar>x / pow2 (e - 52) - of_int m\<bar> < 1 / 2"
    and "of_int m * pow2 (e - 52) < pow2 1024"
  shows "round_to_double x = Finite (of_int m * pow2 (e - 52))"
proof -
  have "binary_exponent \<bar>x\<bar> = e"
    using assms(1-3) by (simp add: binary_exponent_unique)
  moreover have "max (e - 52) (- 1074) = e - 52"
    using assms(4) by simp
  ultimately show ?thesis
    using assms(1) assms(6) round_half_even_nearest[OF assms(5)]
    by (simp add: round_to_double_def Let_def)
qed

lemma float_0_001_value: "float_0_001 = Finite (1152921504606847 / 1152921504606846976)"
proof -
  have "round_to_double (1 / 1000) = Finite (of_int 4611686018427388 * pow2 (- 10 - 52))"
    by (rule round_to_double_nearest) (simp_all add: pow2_def)
  then show ?thesis
    by (simp add: float_0_001_def pow2_def)
qed

lemma round_4007: "round_to_double 4007 = Finite 4007"
proof -
  have "round_to_double 4007 = Finite (of_int 8811486184996864 * pow2 (11 - 52))"
    by (rule round_to_double_nearest) (simp_all add: pow2_def)
  then show ?thesis
    by (simp add: pow2_def)
qed

lemma round_12: "round_to_double 12 = Finite 12"
proof -
  have "round_to_double 12 = Finite (of_int 6755399441055744 * pow2 (3 - 52))"
    by (rule round_to_double_nearest) (simp_all add: pow2_def)
  then show ?thesis
    by (simp add: pow2_def)
qed

lemma mul_4007_0_001:
  "float_mul (Finite 4007) float_0_001 = Finite (2255740463359197 / 562949953421312)"
proof -
  have "round_to_double (4007 * (1152921504606847 / 1152921504606846976))
          = Finite (of_int 4511480926718394 * pow2 (2 - 52))"
    by (rule round_to_double_nearest) (simp_all add: pow2_def)
  then show ?thesis
    by (simp add: pow2_def float_0_001_value)
qed

lemma mul_4_007_1000:
  "float_mul (Finite (2255740463359197 / 562949953421312)) (Finite 1000)
     = Finite (8811486184996863 / 2199023255552)"
proof -
  have "round_to_double (2255740463359197 / 562949953421312 * 1000)
          = Finite (of_int 8811486184996863 * pow2 (11 - 52))"
    by (rule round_to_double_nearest) (simp_all add: pow2_def)
  then show ?thesis
    by (simp add: pow2_def)
qed

lemma mul_12_0_001:
  "float_mul (Finite 12) float_0_001 = Finite (3458764513820541 / 288230376151711744)"
proof -
  have "round_to_double (12 * (1152921504606847 / 1152921504606846976))
          = Finite (of_int 6917529027641082 * pow2 (- 7 - 52))"
    by (rule round_to_double_nearest) (simp_all add: pow2_def)
  then show ?thesis
    by (simp add: pow2_def float_0_001_value)
qed

lemma mul_0_012_1000:
  "float_mul (Finite (3458764513820541 / 288230376151711744)) (Finite 1000) = Finite 12"
proof -
  have "round_to_double (3458764513820541 / 288230376151711744 * 1000)
          = Finite (of_int 6755399441055744 * pow2 (3 - 52))"
    by (rule round_to_double_nearest) (simp_all add: pow2_def)
  then show ?thesis
    by (simp add: pow2_def)
qed

lemma strip_examples: "strip ''4007'' = ''4007''" "strip ''12'' = ''12''"
  by (simp_all add: strip_def is_space_def)

lemma unsigned_decimal_examples:
  "unsigned_decimal ''4007'' = Some 4007" "unsigned_decimal ''12'' = Some 12"
  by (simp_all add: unsigned_decimal_def exponent_def decimal_value_def digit_value_def
      is_digit_def digits_def)

lemma py_float_examples:
  "py_float ''4007'' = Return (Finite 4007)" "py_float ''12'' = Return (Finite 12)"
  by (simp_all add: py_float_def strip_examples split_sign_def lower_def lower_char_def
      upper_letters_def lower_letters_def unsigned_decimal_examples round_4007 round_12)

text \<open>Other texts that \<open>float\<close> reads, and some that it does not.\<close>

lemma py_float_reads:
  "py_float '' 1e3 '' = Return (round_to_double 1000)"
  "py_float ''.5'' = Return (round_to_double (1 / 2))"
  "py_float ''-2.50E-1'' = Return (round_to_double (- (1 / 4)))"
  "py_float ''-Inf'' = Return (Infinity True)"
  "py_float ''nan'' = Return NaN"
  "py_float ''.'' = Raise (ValueError ''.'')"
  "py_float ''1e'' = Raise (ValueError ''1e'')"
  "py_float ''12 nm'' = Raise (ValueError ''12 nm'')"
  by (simp_all add: py_float_def strip_def is_space_def split_sign_def lower_def lower_char_def
      upper_letters_def lower_letters_def unsigned_decimal_def exponent_def decimal_value_def
      digit_value_def is_digit_def digits_def power_int_minus)

section \<open>The nominal defocus there and back\<close>

text \<open>
  Claim C4 at two inputs, in round-trip mode. The nominal defocus \<open>12\<close> nm becomes the
  float \<open>12 * 0.001\<close> in micrometres with the marker in the details, and comes back as
  the integer \<open>12\<close> in nm. The nominal defocus \<open>4007\<close> nm becomes the float
  \<open>4007 * 0.001\<close>, the double nearest to 4.007, with the marker in the details; times
  1000 this is the double just below 4007, and \<open>int\<close> truncates it: the value comes back
  as the integer \<open>4006\<close>.
\<close>

theorem nominal_defocus_int_round_trip:
  "defocus_forward \<lparr>nominalDefocusMin = Some \<lparr>valueOf = ''12'', units = Some ''nm''\<rparr>,
       nominalDefocusMax = None, img_details = None\<rparr>
     = Return \<lparr>nominal_defocus_min =
                 Some \<lparr>valueOf = Finite (3458764513820541 / 288230376151711744),
                       units = Some U_MICROM\<rparr>,
               nominal_defocus_max = None,
               mic_details = Some ''{nominal defocus min is int}''\<rparr>
   \<and> defocus_reverse (init\<lparr>roundtrip := True\<rparr>)
       \<lparr>nominal_defocus_min =
          Some \<lparr>valueOf = Finite (3458764513820541 / 288230376151711744), units = Some U_MICROM\<rparr>,
        nominal_defocus_max = None,
        mic_details = Some ''{nominal defocus min is int}''\<rparr>
     = Return \<lparr>nominalDefocusMin_out = Some \<lparr>valueOf = PyInt 12, units = Some ''nm''\<rparr>,
               nominalDefocusMax_out = None, details_out = None\<rparr>
   \<and> defocus_forward \<lparr>nominalDefocusMin = Some \<lparr>valueOf = ''4007'', units = Some ''nm''\<rparr>,
       nominalDefocusMax = None, img_details = None\<rparr>
     = Return \<lparr>nominal_defocus_min =
                 Some \<lparr>valueOf = Finite (2255740463359197 / 562949953421312),
                       units = Some U_MICROM\<rparr>,
               nominal_defocus_max = None,
               mic_details = Some ''{nominal defocus min is int}''\<rparr>
   \<and> defocus_reverse (init\<lparr>roundtrip := True\<rparr>)
       \<lparr>nominal_defocus_min =
          Some \<lparr>valueOf = Finite (2255740463359197 / 562949953421312), units = Some U_MICROM\<rparr>,
        nominal_defocus_max = None,
        mic_details = Some ''{nominal defocus min is int}''\<rparr>
     = Return \<lparr>nominalDefocusMin_out = Some \<lparr>valueOf = PyInt 4006, units = Some ''nm''\<rparr>,
               nominalDefocusMax_out = None, details_out = None\<rparr>"
proof -
  have marker: "occurs_in min_is_int ''{nominal defocus min is int}''"
    "\<not> occurs_in max_is_int ''{nominal defocus min is int}''"
    "remove_all min_is_int ''{nominal defocus min is int}'' = []"
    "\<not> occurs_in max_is_int []"
    by (simp_all add: min_is_int_def max_is_int_def)
  have "\<lfloor>(8811486184996863 :: rat) / 2199023255552\<rfloor> = 4006"
    by (rule floor_unique) simp_all
  then have trunc: "py_int (Finite 12) = Return 12"
    "py_int (Finite (8811486184996863 / 2199023255552)) = Return 4006"
    by (simp_all add: py_int_def)
  have f12: "defocus_forward \<lparr>nominalDefocusMin = Some \<lparr>valueOf = ''12'', units = Some ''nm''\<rparr>,
       nominalDefocusMax = None, img_details = None\<rparr>
     = Return \<lparr>nominal_defocus_min =
                 Some \<lparr>valueOf = Finite (3458764513820541 / 288230376151711744),
                       units = Some U_MICROM\<rparr>,
               nominal_defocus_max = None,
               mic_details = Some ''{nominal defocus min is int}''\<rparr>"
    by (simp add: defocus_forward_def nominal_defocus_forward_def U_NM_def py_float_examples
        mul_12_0_001 min_is_int_def del: float_mul.simps)
  have f4007: "defocus_forward \<lparr>nominalDefocusMin = Some \<lparr>valueOf = ''4007'', units = Some ''nm''\<rparr>,
       nominalDefocusMax = None, img_details = None\<rparr>
     = Return \<lparr>nominal_defocus_min =
                 Some \<lparr>valueOf = Finite (2255740463359197 / 562949953421312),
                       units = Some U_MICROM\<rparr>,
               nominal_defocus_max = None,
               mic_details = Some ''{nominal defocus min is int}''\<rparr>"
    by (simp add: defocus_forward_def nominal_defocus_forward_def U_NM_def py_float_examples
        mul_4007_0_001 min_is_int_def del: float_mul.simps)
  have r12: "defocus_reverse (init\<lparr>roundtrip := True\<rparr>)
       \<lparr>nominal_defocus_min =
          Some \<lparr>valueOf = Finite (3458764513820541 / 288230376151711744), units = Some U_MICROM\<rparr>,
        nominal_defocus_max = None,
        mic_details = Some ''{nominal defocus min is int}''\<rparr>
     = Return \<lparr>nominalDefocusMin_out = Some \<lparr>valueOf = PyInt 12, units = Some ''nm''\<rparr>,
               nominalDefocusMax_out = None, details_out = None\<rparr>"
    by (simp add: defocus_reverse_def nominal_defocus_reverse_def marker mul_0_012_1000 trunc
        del: occurs_in.simps remove_all.simps float_mul.simps)
  have r4007: "defocus_reverse (init\<lparr>roundtrip := True\<rparr>)
       \<lparr>nominal_defocus_min =
          Some \<lparr>valueOf = Finite (2255740463359197 / 562949953421312), units = Some U_MICROM\<rparr>,
        nominal_defocus_max = None,
        mic_details = Some ''{nominal defocus min is int}''\<rparr>
     = Return \<lparr>nominalDefocusMin_out = Some \<lparr>valueOf = PyInt 4006, units = Some ''nm''\<rparr>,
               nominalDefocusMax_out = None, details_out = None\<rparr>"
    by (simp add: defocus_reverse_def nominal_defocus_reverse_def marker mul_4_007_1000 trunc
        del: occurs_in.simps remove_all.simps float_mul.simps)
  show ?thesis
    by (intro conjI f12 r12 f4007 r4007)
qed


text \<open>
  The two translations composed at \<open>4007\<close> nm: the forward translation and then the
  reverse translation of its result, in round-trip mode.
\<close>

theorem nominal_defocus_int_round_trip_witness:
  "(case defocus_forward \<lparr>nominalDefocusMin = Some \<lparr>valueOf = ''4007'', units = Some ''nm''\<rparr>,
            nominalDefocusMax = None, img_details = None\<rparr> of
      Raise err \<Rightarrow> Raise err
    | Return mic \<Rightarrow> defocus_reverse (init\<lparr>roundtrip := True\<rparr>) mic)
   = Return \<lparr>nominalDefocusMin_out = Some \<lparr>valueOf = PyInt 4006, units = Some ''nm''\<rparr>,
             nominalDefocusMax_out = None, details_out = None\<rparr>"
proof -
  note forward = nominal_defocus_int_round_trip[THEN conjunct2, THEN conjunct2, THEN conjunct1]
  note reverse = nominal_defocus_int_round_trip[THEN conjunct2, THEN conjunct2, THEN conjunct2]
  show ?thesis
    unfolding forward by (simp only: result.case reverse)
qed

section \<open>The round trip of an entry\<close>

text \<open>
  Claim C1 at one field, with the round-trip flag set in both directions. A v1.9
  reconstruction with the resolution method \<open>FSC 0.5\<close> comes back with \<open>OTHER\<close> as
  its resolution method, and a reconstruction with no resolution method comes back with
  \<open>OTHER\<close> as well; an allow-listed resolution method comes back as it was.
\<close>

theorem resolutionMethod_round_trip_loses:
  "resolutionMethod_round_trip (init\<lparr>roundtrip := True\<rparr>) (Some ''FSC 0.5'') = Some ''OTHER''
   \<and> resolutionMethod_round_trip (init\<lparr>roundtrip := True\<rparr>) None = Some ''OTHER''
   \<and> resolutionMethod_round_trip (init\<lparr>roundtrip := True\<rparr>) (Some ''FSC 0.5 CUT-OFF'')
       = Some ''FSC 0.5 CUT-OFF''"
  by (simp add: resolutionMethod_round_trip_def resolutionMethod_reverse_def
      resolution_method_def allowed_res_methods_def copy_field_def check_set_def)

end
